theory Spec2Isabelle
  imports Main
begin

text \<open>
  A shallow embedding of the safety-gated operation pipeline of the MTK tool: the safety system
  (\<open>mtk_safety.py\<close>), the device manager (\<open>mtk_device_manager.py\<close>), the report manager
  (\<open>mtk_reports.py\<close>) and the dispatch of \<open>MTKTool\<close> (\<open>mtk_tool_main.py\<close>).

  Every method is a function of the outside world, its arguments and the program state, returning
  its result and the new state. The world answers each external command from the commands issued
  before it, so that a device may change between two queries; the state records the commands in
  the order they were issued. A Python exception is a value: a function that may raise returns a
  sum, and each \<open>try\<close> handler of the source is a case distinction on it. Constants keep the
  names of the source without the leading underscore of private methods.

  Strings are sequences of 8-bit characters, so letter case, digits and white space are those of
  ASCII; paths are joined as on POSIX; floats are IEEE 754 binary64 values with round-to-nearest,
  ties-to-even.
\<close>

section \<open>Python strings\<close>

definition is_space :: "char \<Rightarrow> bool" where
  "is_space c = (let n = (of_char c :: nat) in (9 \<le> n \<and> n \<le> 13) \<or> (28 \<le> n \<and> n \<le> 32))"

definition is_digit :: "char \<Rightarrow> bool" where
  "is_digit c = (let n = (of_char c :: nat) in 48 \<le> n \<and> n \<le> 57)"

definition digit_val :: "char \<Rightarrow> nat" where
  "digit_val c = of_char c - 48"

definition upper_char :: "char \<Rightarrow> char" where
  "upper_char c =
     (case map_of (zip ''abcdefghijklmnopqrstuvwxyz'' ''ABCDEFGHIJKLMNOPQRSTUVWXYZ'') c of
        Some u \<Rightarrow> u | None \<Rightarrow> c)"

definition lower_char :: "char \<Rightarrow> char" where
  "lower_char c =
     (case map_of (zip ''ABCDEFGHIJKLMNOPQRSTUVWXYZ'' ''abcdefghijklmnopqrstuvwxyz'') c of
        Some l \<Rightarrow> l | None \<Rightarrow> c)"

definition py_lower :: "string \<Rightarrow> string" where
  "py_lower s = map lower_char s"

definition py_strip :: "string \<Rightarrow> string" where
  "py_strip s = rev (dropWhile is_space (rev (dropWhile is_space s)))"

fun digitpart :: "string \<Rightarrow> string \<times> string" where
  "digitpart [] = ([], [])"
| "digitpart (c # cs) =
     (if \<not> is_digit c then ([], c # cs)
      else (case cs of
              u # d # cs' \<Rightarrow>
                (if u = CHR ''_'' \<and> is_digit d
                 then (let (ds, r) = digitpart (d # cs') in (c # ds, r))
                 else (let (ds, r) = digitpart cs in (c # ds, r)))
            | _ \<Rightarrow> (let (ds, r) = digitpart cs in (c # ds, r))))"

definition digits_value :: "string \<Rightarrow> int" where
  "digits_value ds = foldl (\<lambda>a c. 10 * a + int (digit_val c)) 0 ds"

fun py_split_aux :: "string \<Rightarrow> string \<Rightarrow> string list" where
  "py_split_aux cur [] = (if cur = [] then [] else [cur])"
| "py_split_aux cur (c # cs) =
     (if is_space c then (if cur = [] then py_split_aux [] cs else cur # py_split_aux [] cs)
      else py_split_aux (cur @ [c]) cs)"

definition py_split :: "string \<Rightarrow> string list" where
  "py_split s = py_split_aux [] s"

fun split_on_aux :: "string \<Rightarrow> char \<Rightarrow> string \<Rightarrow> string list" where
  "split_on_aux cur sep [] = [cur]"
| "split_on_aux cur sep (c # cs) =
     (if c = sep then cur # split_on_aux [] sep cs else split_on_aux (cur @ [c]) sep cs)"

definition split_on :: "char \<Rightarrow> string \<Rightarrow> string list" where
  "split_on sep s = split_on_aux [] sep s"

fun starts_with :: "string \<Rightarrow> string \<Rightarrow> bool" where
  "starts_with [] s = True"
| "starts_with (p # ps) [] = False"
| "starts_with (p # ps) (c # cs) = (p = c \<and> starts_with ps cs)"

fun py_contains :: "string \<Rightarrow> string \<Rightarrow> bool" where
  "py_contains sub [] = (sub = [])"
| "py_contains sub (c # cs) = (starts_with sub (c # cs) \<or> py_contains sub cs)"

definition os_path_join :: "string \<Rightarrow> string \<Rightarrow> string" where
  "os_path_join a b =
     (if b \<noteq> [] \<and> hd b = CHR ''/'' then b
      else if a = [] \<or> last a = CHR ''/'' then a @ b
      else a @ ''/'' @ b)"

datatype py_exception = TimeoutExpired string | Error string

fun exc_str :: "py_exception \<Rightarrow> string" where
  "exc_str (TimeoutExpired m) = m"
| "exc_str (Error m) = m"

definition split_sign :: "string \<Rightarrow> bool \<times> string" where
  "split_sign s =
     (case s of
        c # cs \<Rightarrow> (if c = CHR ''-'' then (True, cs) else if c = CHR ''+'' then (False, cs) else (False, s))
      | [] \<Rightarrow> (False, []))"

definition py_int_of_str :: "string \<Rightarrow> py_exception + int" where
  "py_int_of_str s =
     (let (neg, body) = split_sign (py_strip s); (ds, r) = digitpart body
      in if ds = [] \<or> r \<noteq> [] then Inl (Error ''invalid literal for int() with base 10'')
         else Inr (if neg then - digits_value ds else digits_value ds))"

fun nat_digits :: "nat \<Rightarrow> string" where
  "nat_digits n =
     (if n < 10 then [''0123456789'' ! n] else nat_digits (n div 10) @ [''0123456789'' ! (n mod 10)])"

definition py_str_of_int :: "int \<Rightarrow> string" where
  "py_str_of_int i = (if i < 0 then CHR ''-'' # nat_digits (nat (- i)) else nat_digits (nat i))"

section \<open>Python floats (IEEE 754 binary64)\<close>

text \<open>A finite binary64 value is kept as an integer significand and a binary exponent:
  \<open>Finite m e\<close> stands for \<open>m * 2 ^ e\<close>.\<close>

datatype pyfloat = Finite int int | PosInf | NegInf | NaN

function bit_length :: "int \<Rightarrow> nat" where
  "bit_length n = (if n \<le> 0 then 0 else Suc (bit_length (n div 2)))"
  by pat_completeness auto
termination
  by (relation "measure nat") auto

declare bit_length.simps [simp del]

definition floor_log2 :: "int \<Rightarrow> int \<Rightarrow> int" where
  "floor_log2 p q =
     (let e0 = int (bit_length p) - int (bit_length q);
          ge = (if 0 \<le> e0 then q * 2 ^ nat e0 \<le> p else q \<le> p * 2 ^ nat (- e0))
      in if ge then e0 else e0 - 1)"

definition round_half_even :: "int \<Rightarrow> int \<Rightarrow> int" where
  "round_half_even num den =
     (let f = num div den; r = num mod den
      in if 2 * r < den then f else if den < 2 * r then f + 1 else if even f then f else f + 1)"

definition round64 :: "bool \<Rightarrow> int \<Rightarrow> int \<Rightarrow> pyfloat" where
  "round64 neg p q =
     (if p = 0 then Finite 0 0
      else let ue = max (floor_log2 p q) (- 1022) - 52;
               n = (if 0 \<le> ue then round_half_even p (q * 2 ^ nat ue)
                    else round_half_even (p * 2 ^ nat (- ue)) q)
           in if 0 \<le> ue \<and> 2 ^ 1024 \<le> n * 2 ^ nat ue then (if neg then NegInf else PosInf)
              else Finite (if neg then - n else n) ue)"

definition round64_scaled :: "int \<Rightarrow> int \<Rightarrow> int \<Rightarrow> pyfloat" where
  "round64_scaled m d e =
     (if 0 \<le> e then round64 ((m < 0) \<noteq> (d < 0)) (\<bar>m\<bar> * 2 ^ nat e) \<bar>d\<bar>
      else round64 ((m < 0) \<noteq> (d < 0)) \<bar>m\<bar> (\<bar>d\<bar> * 2 ^ nat (- e)))"

definition inf_times :: "int \<Rightarrow> pyfloat" where
  "inf_times x = (if x = 0 then NaN else if 0 < x then PosInf else NegInf)"

fun fmul :: "pyfloat \<Rightarrow> pyfloat \<Rightarrow> pyfloat" where
  "fmul NaN _ = NaN"
| "fmul _ NaN = NaN"
| "fmul (Finite m1 e1) (Finite m2 e2) = round64_scaled (m1 * m2) 1 (e1 + e2)"
| "fmul (Finite m e) PosInf = inf_times m"
| "fmul (Finite m e) NegInf = inf_times (- m)"
| "fmul PosInf (Finite m e) = inf_times m"
| "fmul NegInf (Finite m e) = inf_times (- m)"
| "fmul PosInf PosInf = PosInf"
| "fmul PosInf NegInf = NegInf"
| "fmul NegInf PosInf = NegInf"
| "fmul NegInf NegInf = PosInf"

fun fdiv :: "pyfloat \<Rightarrow> pyfloat \<Rightarrow> py_exception + pyfloat" where
  "fdiv x (Finite m2 e2) =
     (if m2 = 0 then Inl (Error ''float division by zero'')
      else (case x of
              Finite m1 e1 \<Rightarrow> Inr (round64_scaled m1 m2 (e1 - e2))
            | PosInf \<Rightarrow> Inr (if 0 < m2 then PosInf else NegInf)
            | NegInf \<Rightarrow> Inr (if 0 < m2 then NegInf else PosInf)
            | NaN \<Rightarrow> Inr NaN))"
| "fdiv (Finite m1 e1) PosInf = Inr (Finite 0 0)"
| "fdiv (Finite m1 e1) NegInf = Inr (Finite 0 0)"
| "fdiv _ _ = Inr NaN"

text \<open>Conversion of an integer operand to a float; the source applies it to the constants
  1024 and 2100 only.\<close>

definition float_of_int :: "int \<Rightarrow> pyfloat" where
  "float_of_int i = round64 (i < 0) \<bar>i\<bar> 1"

definition trunc :: "int \<Rightarrow> int \<Rightarrow> int" where
  "trunc m e =
     (if 0 \<le> e then m * 2 ^ nat e
      else if 0 \<le> m then m div 2 ^ nat (- e) else - ((- m) div 2 ^ nat (- e)))"

fun py_int_of_float :: "pyfloat \<Rightarrow> py_exception + int" where
  "py_int_of_float (Finite m e) = Inr (trunc m e)"
| "py_int_of_float NaN = Inl (Error ''cannot convert float NaN to integer'')"
| "py_int_of_float _ = Inl (Error ''cannot convert float infinity to integer'')"

definition parse_exponent :: "string \<Rightarrow> int option" where
  "parse_exponent s =
     (case s of
        [] \<Rightarrow> Some 0
      | c # cs \<Rightarrow>
          (if c = CHR ''e'' \<or> c = CHR ''E''
           then (let (neg, body) = split_sign cs; (ds, r) = digitpart body
                 in if ds = [] \<or> r \<noteq> [] then None
                    else Some (if neg then - digits_value ds else digits_value ds))
           else None))"

text \<open>A decimal literal denotes \<open>m * 10 ^ k\<close>; \<open>parse_decimal\<close> returns \<open>(m, k)\<close>.\<close>

definition parse_decimal :: "string \<Rightarrow> (int \<times> int) option" where
  "parse_decimal s =
     (let (ip, r1) = digitpart s;
          (fp, r2) = (case r1 of c # cs \<Rightarrow> (if c = CHR ''.'' then digitpart cs else ([], r1))
                               | [] \<Rightarrow> ([], []))
      in if ip = [] \<and> fp = [] then None
         else (case parse_exponent r2 of
                 None \<Rightarrow> None
               | Some e \<Rightarrow> Some (digits_value (ip @ fp), e - int (length fp))))"

definition round64_decimal :: "bool \<Rightarrow> int \<Rightarrow> int \<Rightarrow> pyfloat" where
  "round64_decimal neg m k =
     (if 0 \<le> k then round64 neg (m * 10 ^ nat k) 1 else round64 neg m (10 ^ nat (- k)))"

definition py_float_of_str :: "string \<Rightarrow> py_exception + pyfloat" where
  "py_float_of_str s =
     (let (neg, body) = split_sign (py_strip s); word = py_lower body
      in if word = ''inf'' \<or> word = ''infinity'' then Inr (if neg then NegInf else PosInf)
         else if word = ''nan'' then Inr NaN
         else (case parse_decimal body of
                 None \<Rightarrow> Inl (Error ''could not convert string to float'')
               | Some (m, k) \<Rightarrow> Inr (round64_decimal neg m k)))"

section \<open>The safety system: storage arithmetic\<close>

definition critical_partitions :: "string list" where
  "critical_partitions = [''nvram'', ''boot'', ''persist'', ''security'', ''userdata'', ''system'']"

definition convert_to_mb_body :: "string \<Rightarrow> py_exception + int" where
  "convert_to_mb_body size_str =
     (case py_float_of_str (butlast size_str) of
        Inl e \<Rightarrow> Inl e
      | Inr sz \<Rightarrow>
          (if size_str = [] then Inl (Error ''string index out of range'')
           else let unit = upper_char (last size_str)
                in if unit = CHR ''G'' then py_int_of_float (fmul sz (float_of_int 1024))
                   else if unit = CHR ''M'' then py_int_of_float sz
                   else if unit = CHR ''K'' then
                     (case fdiv sz (float_of_int 1024) of
                        Inl e \<Rightarrow> Inl e | Inr q \<Rightarrow> py_int_of_float q)
                   else Inr 0))"

definition convert_to_mb :: "string \<Rightarrow> int" where
  "convert_to_mb size_str = (case convert_to_mb_body size_str of Inl e \<Rightarrow> 0 | Inr v \<Rightarrow> v)"

definition calculate_required_space :: "py_exception + int" where
  "calculate_required_space =
     (let base_space = 500;
          partition_space = int (length critical_partitions) * 100;
          extra_space = (if ''userdata'' \<in> set critical_partitions then 1000 else 0);
          total_required = base_space + partition_space + extra_space
      in py_int_of_float (fmul (float_of_int total_required) (round64_decimal False 12 (- 1))))"

section \<open>Values, the host and the device\<close>

text \<open>Python dictionaries keep insertion order; a result dictionary is an association list
  from keys to dynamically typed values.\<close>

datatype pyval = PNone | PBool bool | PInt int | PStr string
  | PList "pyval list" | PDict "(string \<times> pyval) list"

type_synonym dict = "(string \<times> pyval) list"

text \<open>\<open>device_info\<close> is a dictionary of strings (chipset, serial, model, expected_state);
  a key may be absent.\<close>

type_synonym device_info = "(string \<times> string) list"

definition device_info_val :: "device_info \<Rightarrow> pyval" where
  "device_info_val device_info = PDict (map (\<lambda>(k, v). (k, PStr v)) device_info)"

fun truthy :: "pyval \<Rightarrow> bool" where
  "truthy PNone = False"
| "truthy (PBool b) = b"
| "truthy (PInt i) = (i \<noteq> 0)"
| "truthy (PStr s) = (s \<noteq> [])"
| "truthy (PList xs) = (xs \<noteq> [])"
| "truthy (PDict d) = (d \<noteq> [])"

fun dict_set :: "string \<Rightarrow> pyval \<Rightarrow> dict \<Rightarrow> dict" where
  "dict_set k v [] = [(k, v)]"
| "dict_set k v ((k', v') # d) = (if k = k' then (k, v) # d else (k', v') # dict_set k v d)"

text \<open>The outcome of \<open>subprocess.run\<close>: the process completed with a return code, its
  standard output and its standard error, or the call raised.\<close>

datatype proc_result = Completed int string string | Raised py_exception

text \<open>Everything outside the program. The device answers a command depending on the commands
  issued before it; the host file system answers existence queries and may refuse writes.
  \<open>load_partitions path\<close> is the outcome of opening \<open>path\<close>, parsing it as JSON and iterating
  its \<open>partitions\<close> entry (each element formatted as a string).\<close>

record world =
  proc :: "string list list \<Rightarrow> string list \<Rightarrow> proc_result"
  which :: "string \<Rightarrow> bool"
  path_exists :: "string \<Rightarrow> bool"
  load_partitions :: "string \<Rightarrow> py_exception + string list"
  makedirs :: "string \<Rightarrow> py_exception option"
  write_json :: "string \<Rightarrow> py_exception option"
  render_pdf :: "string \<Rightarrow> py_exception option"
  now_isoformat :: "string list list \<Rightarrow> string"
  now_strftime :: "string list list \<Rightarrow> string"

text \<open>What the program changes: the commands issued so far (oldest first), the JSON files it
  has written, and the fields of the report manager and of the device manager.\<close>

record state =
  trace :: "string list list"
  written :: "(string \<times> pyval) list"
  current_report :: "dict option"
  report_data :: dict
  current_device :: "device_info option"

definition subprocess_run :: "world \<Rightarrow> string list \<Rightarrow> state \<Rightarrow> proc_result \<times> state" where
  "subprocess_run w argv s = (proc w (trace s) argv, s\<lparr>trace := trace s @ [argv]\<rparr>)"

definition json_dump :: "world \<Rightarrow> string \<Rightarrow> pyval \<Rightarrow> state \<Rightarrow> py_exception option \<times> state" where
  "json_dump w path v s =
     (case write_json w path of
        Some e \<Rightarrow> (Some e, s)
      | None \<Rightarrow> (None, s\<lparr>written := written s @ [(path, v)]\<rparr>))"

section \<open>The safety system: pre-operation checks\<close>

definition check_battery :: "world \<Rightarrow> device_info \<Rightarrow> state \<Rightarrow> dict \<times> state" where
  "check_battery w device_info s =
     (let (result, s1) = subprocess_run w
            [''adb'', ''shell'', ''cat'', ''/sys/class/power_supply/battery/capacity''] s
      in case result of
           Raised e \<Rightarrow> ([(''safe'', PBool False), (''message'', PStr ''Could not check battery'')], s1)
         | Completed rc out err \<Rightarrow>
             (case py_int_of_str (py_strip out) of
                Inl e \<Rightarrow>
                  ([(''safe'', PBool False), (''message'', PStr ''Could not check battery'')], s1)
              | Inr battery_level \<Rightarrow>
                  (if battery_level < 20
                   then ([(''safe'', PBool False),
                          (''message'', PStr ''Battery level too low''),
                          (''required'', PStr ''20%''),
                          (''current'', PStr (py_str_of_int battery_level @ ''%''))], s1)
                   else ([(''safe'', PBool True)], s1))))"

definition check_connection :: "world \<Rightarrow> device_info \<Rightarrow> state \<Rightarrow> dict \<times> state" where
  "check_connection w device_info s =
     (let (result, s1) = subprocess_run w [''adb'', ''devices''] s
      in case result of
           Raised e \<Rightarrow> ([(''safe'', PBool False), (''message'', PStr ''Connection check failed'')], s1)
         | Completed rc out err \<Rightarrow>
             (case map_of device_info ''serial'' of
                None \<Rightarrow>
                  ([(''safe'', PBool False), (''message'', PStr ''Connection check failed'')], s1)
              | Some serial \<Rightarrow>
                  (if \<not> py_contains serial out
                   then ([(''safe'', PBool False), (''message'', PStr ''Device not connected'')], s1)
                   else ([(''safe'', PBool True)], s1))))"

definition verify_device_state :: "world \<Rightarrow> device_info \<Rightarrow> state \<Rightarrow> dict \<times> state" where
  "verify_device_state w device_info s =
     (let (result, s1) = subprocess_run w [''adb'', ''get-state''] s
      in case result of
           Raised e \<Rightarrow>
             ([(''safe'', PBool False), (''message'', PStr ''Could not verify device state'')], s1)
         | Completed rc out err \<Rightarrow>
             (let st = py_strip out;
                  expected_state = (case map_of device_info ''expected_state'' of
                                      None \<Rightarrow> ''device'' | Some x \<Rightarrow> x)
              in if st \<noteq> expected_state
                 then ([(''safe'', PBool False),
                        (''message'', PStr (''Device in wrong state: '' @ st @ '', expected: ''
                                             @ expected_state))], s1)
                 else ([(''safe'', PBool True)], s1)))"

definition check_critical_partitions :: "world \<Rightarrow> device_info \<Rightarrow> state \<Rightarrow> dict \<times> state" where
  "check_critical_partitions w device_info s =
     (let (result, s1) = subprocess_run w [''adb'', ''shell'', ''ls'', ''/dev/block/by-name/''] s
      in case result of
           Raised e \<Rightarrow>
             ([(''safe'', PBool False), (''message'', PStr ''Critical partition check failed'')], s1)
         | Completed rc out err \<Rightarrow>
             (if rc \<noteq> 0
              then ([(''safe'', PBool False), (''message'', PStr ''Could not access partitions'')], s1)
              else let available_partitions = py_split out
                   in case find (\<lambda>part. part \<notin> set available_partitions)
                             critical_partitions of
                        Some part \<Rightarrow>
                          ([(''safe'', PBool False),
                            (''message'', PStr (''Critical partition not found: '' @ part))], s1)
                      | None \<Rightarrow> ([(''safe'', PBool True)], s1)))"

definition check_backup_availability :: "world \<Rightarrow> device_info \<Rightarrow> state \<Rightarrow> dict \<times> state" where
  "check_backup_availability w device_info s =
     (let (result, s1) = subprocess_run w [''adb'', ''shell'', ''df'', ''-h'', ''/data''] s
      in case result of
           Raised e \<Rightarrow>
             ([(''safe'', PBool False), (''message'', PStr ''Backup availability check failed'')], s1)
         | Completed rc out err \<Rightarrow>
             (if rc \<noteq> 0
              then ([(''safe'', PBool False), (''message'', PStr ''Could not check storage space'')], s1)
              else let lines = split_on CHR 0x0A (py_strip out)
                   in if length lines < 2
                      then ([(''safe'', PBool False),
                             (''message'', PStr ''Invalid storage info format'')], s1)
                      else let parts = py_split (lines ! 1)
                           in if length parts < 4
                              then ([(''safe'', PBool False),
                                     (''message'', PStr ''Invalid storage info format'')], s1)
                              else let available_space = convert_to_mb (parts ! 3)
                                   in case calculate_required_space of
                                        Inl e \<Rightarrow>
                                          ([(''safe'', PBool False),
                                            (''message'', PStr ''Backup availability check failed'')], s1)
                                      | Inr required_space \<Rightarrow>
                                          (if available_space < required_space
                                           then ([(''safe'', PBool False),
                                                  (''message'', PStr (''Insufficient storage space. Need ''
                                                     @ py_str_of_int required_space @ ''MB, have ''
                                                     @ py_str_of_int available_space @ ''MB''))], s1)
                                           else ([(''safe'', PBool True)], s1))))"

definition handle_safety_error :: "py_exception \<Rightarrow> dict" where
  "handle_safety_error error =
     [(''safe'', PBool False), (''message'', PStr ''Safety check failed''),
      (''error'', PStr (exc_str error))]"

definition safety_checks_pre_operation :: "string list" where
  "safety_checks_pre_operation = [''check_battery'', ''check_connection'', ''verify_device_state'']"

text \<open>\<open>getattr(self, name)\<close> for the check methods of the safety system; any other name
  is treated as a missing attribute.\<close>

definition getattr_check ::
  "string \<Rightarrow> (world \<Rightarrow> device_info \<Rightarrow> state \<Rightarrow> dict \<times> state) option" where
  "getattr_check name =
     (if name = ''_check_battery'' then Some check_battery
      else if name = ''_check_connection'' then Some check_connection
      else if name = ''_verify_device_state'' then Some verify_device_state
      else if name = ''_check_critical_partitions'' then Some check_critical_partitions
      else if name = ''_check_backup_availability'' then Some check_backup_availability
      else None)"

text \<open>Subscripting a result with a key: a missing key raises \<open>KeyError\<close>.\<close>

definition subscript :: "dict \<Rightarrow> string \<Rightarrow> py_exception + pyval" where
  "subscript d k = (case map_of d k of None \<Rightarrow> Inl (Error k) | Some v \<Rightarrow> Inr v)"

text \<open>The loop over the pre-operation checks: \<open>Inr (Some r)\<close> is the early return of \<open>r\<close>,
  \<open>Inr None\<close> falls through to the code after the loop, \<open>Inl e\<close> is a raised exception.\<close>

fun pre_operation_loop ::
  "world \<Rightarrow> device_info \<Rightarrow> string list \<Rightarrow> state \<Rightarrow> (py_exception + dict option) \<times> state" where
  "pre_operation_loop w device_info [] s = (Inr None, s)"
| "pre_operation_loop w device_info (check # rest) s =
     (case getattr_check (''_'' @ check) of
        None \<Rightarrow> (Inl (Error (''object has no attribute _'' @ check)), s)
      | Some f \<Rightarrow>
          (let (result, s1) = f w device_info s
           in case subscript result ''safe'' of
                Inl e \<Rightarrow> (Inl e, s1)
              | Inr v \<Rightarrow> (if \<not> truthy v then (Inr (Some result), s1)
                          else pre_operation_loop w device_info rest s1)))"

definition check_safety :: "world \<Rightarrow> device_info \<Rightarrow> state \<Rightarrow> dict \<times> state" where
  "check_safety w device_info s =
     (case pre_operation_loop w device_info safety_checks_pre_operation s of
        (Inl e, s1) \<Rightarrow> (handle_safety_error e, s1)
      | (Inr (Some result), s1) \<Rightarrow> (result, s1)
      | (Inr None, s1) \<Rightarrow>
          (let (partition_check, s2) = check_critical_partitions w device_info s1
           in case subscript partition_check ''safe'' of
                Inl e \<Rightarrow> (handle_safety_error e, s2)
              | Inr v \<Rightarrow>
                  (if \<not> truthy v then (partition_check, s2)
                   else let (backup_check, s3) = check_backup_availability w device_info s2
                        in case subscript backup_check ''safe'' of
                             Inl e \<Rightarrow> (handle_safety_error e, s3)
                           | Inr v' \<Rightarrow>
                               (if \<not> truthy v' then (backup_check, s3)
                                else ([(''safe'', PBool True),
                                       (''message'', PStr ''All safety checks passed'')], s3)))))"

section \<open>The safety system: backup and restore\<close>

definition backup_root :: string where
  "backup_root = ''./MTK_TOOL/BACKUPS''"

definition backup_partition ::
  "world \<Rightarrow> device_info \<Rightarrow> string \<Rightarrow> string \<Rightarrow> state \<Rightarrow> dict \<times> state" where
  "backup_partition w device_info part backup_path s =
     (let output_file = os_path_join backup_path (part @ ''.img'');
          (result, s1) = subprocess_run w
            [''adb'', ''shell'', ''dd'', ''if=/dev/block/by-name/'' @ part,
             ''of=/data/local/tmp/temp.img''] s
      in case result of
           Raised e \<Rightarrow> ([(''success'', PBool False), (''error'', PStr (exc_str e))], s1)
         | Completed rc out err \<Rightarrow>
             (if rc \<noteq> 0 then ([(''success'', PBool False), (''error'', PStr err)], s1)
              else let (result2, s2) = subprocess_run w
                         [''adb'', ''pull'', ''/data/local/tmp/temp.img'', output_file] s1
                   in case result2 of
                        Raised e \<Rightarrow> ([(''success'', PBool False), (''error'', PStr (exc_str e))], s2)
                      | Completed rc2 out2 err2 \<Rightarrow>
                          (if rc2 \<noteq> 0 then ([(''success'', PBool False), (''error'', PStr err2)], s2)
                           else let (result3, s3) = subprocess_run w
                                      [''adb'', ''shell'', ''rm'', ''/data/local/tmp/temp.img''] s2
                                in case result3 of
                                     Raised e \<Rightarrow>
                                       ([(''success'', PBool False), (''error'', PStr (exc_str e))], s3)
                                   | Completed rc3 out3 err3 \<Rightarrow>
                                       ([(''success'', PBool True), (''path'', PStr output_file)], s3))))"

definition restore_partition ::
  "world \<Rightarrow> device_info \<Rightarrow> string \<Rightarrow> string \<Rightarrow> state \<Rightarrow> dict \<times> state" where
  "restore_partition w device_info part backup_path s =
     (let input_file = os_path_join backup_path (part @ ''.img'')
      in if \<not> path_exists w input_file
         then ([(''success'', PBool False),
                (''error'', PStr (''Backup file not found: '' @ input_file))], s)
         else let (result, s1) = subprocess_run w
                    [''adb'', ''push'', input_file, ''/data/local/tmp/temp.img''] s
              in case result of
                   Raised e \<Rightarrow> ([(''success'', PBool False), (''error'', PStr (exc_str e))], s1)
                 | Completed rc out err \<Rightarrow>
                     (if rc \<noteq> 0 then ([(''success'', PBool False), (''error'', PStr err)], s1)
                      else let (result2, s2) = subprocess_run w
                                 [''adb'', ''shell'', ''dd'', ''if=/data/local/tmp/temp.img'',
                                  ''of=/dev/block/by-name/'' @ part] s1
                           in case result2 of
                                Raised e \<Rightarrow>
                                  ([(''success'', PBool False), (''error'', PStr (exc_str e))], s2)
                              | Completed rc2 out2 err2 \<Rightarrow>
                                  (let (result3, s3) = subprocess_run w
                                         [''adb'', ''shell'', ''rm'', ''/data/local/tmp/temp.img''] s2
                                   in case result3 of
                                        Raised e \<Rightarrow>
                                          ([(''success'', PBool False), (''error'', PStr (exc_str e))], s3)
                                      | Completed rc3 out3 err3 \<Rightarrow>
                                          (if rc2 \<noteq> 0
                                           then ([(''success'', PBool False), (''error'', PStr err2)], s3)
                                           else ([(''success'', PBool True)], s3)))))"

definition get_backup_path :: "world \<Rightarrow> device_info \<Rightarrow> state \<Rightarrow> string" where
  "get_backup_path w device_info s =
     (let timestamp = now_strftime w (trace s);
          device_model = (case map_of device_info ''model'' of None \<Rightarrow> ''unknown'' | Some m \<Rightarrow> m)
      in os_path_join backup_root (device_model @ ''_'' @ timestamp))"

definition create_backup_info ::
  "world \<Rightarrow> string \<Rightarrow> device_info \<Rightarrow> state \<Rightarrow> py_exception option \<times> state" where
  "create_backup_info w backup_path device_info s =
     (let info = PDict [(''timestamp'', PStr (now_isoformat w (trace s))),
                        (''device_info'', device_info_val device_info),
                        (''partitions'', PList (map PStr critical_partitions))]
      in json_dump w (os_path_join backup_path ''backup_info.json'') info s)"

text \<open>\<open>all(r["success"] for r in results.values())\<close>: \<open>Inl\<close> when an entry is not a
  dictionary with that key.\<close>

fun all_success :: "dict \<Rightarrow> py_exception + bool" where
  "all_success [] = Inr True"
| "all_success ((k, PDict r) # rest) =
     (case subscript r ''success'' of
        Inl e \<Rightarrow> Inl e
      | Inr v \<Rightarrow> (if truthy v then all_success rest else Inr False))"
| "all_success ((k, v) # rest) = Inl (Error ''object is not subscriptable'')"

definition create_verification_file ::
  "world \<Rightarrow> string \<Rightarrow> dict \<Rightarrow> state \<Rightarrow> py_exception option \<times> state" where
  "create_verification_file w backup_path results s =
     (case all_success results of
        Inl e \<Rightarrow> (Some e, s)
      | Inr verified \<Rightarrow>
          json_dump w (os_path_join backup_path ''verification.json'')
            (PDict [(''timestamp'', PStr (now_isoformat w (trace s))),
                    (''results'', PDict results),
                    (''verified'', PBool verified)]) s)"

definition verify_backup_integrity :: "world \<Rightarrow> string \<Rightarrow> bool" where
  "verify_backup_integrity w backup_path =
     (let info_path = os_path_join backup_path ''backup_info.json''
      in if \<not> path_exists w info_path then False
         else let verification_path = os_path_join backup_path ''verification.json''
              in if \<not> path_exists w verification_path then False
                 else (case load_partitions w info_path of
                         Inl e \<Rightarrow> False
                       | Inr partitions \<Rightarrow>
                           (case find (\<lambda>part. \<not> path_exists w (os_path_join backup_path (part @ ''.img'')))
                                   partitions of
                              Some part \<Rightarrow> False
                            | None \<Rightarrow> True)))"

definition check_recovery_possible :: "world \<Rightarrow> state \<Rightarrow> bool \<times> state" where
  "check_recovery_possible w s =
     (let (result, s1) = subprocess_run w [''adb'', ''devices''] s
      in case result of
           Raised e \<Rightarrow> (False, s1)
         | Completed rc out err \<Rightarrow>
             (if \<not> py_contains ''device'' out then (False, s1)
              else let (result2, s2) = subprocess_run w [''adb'', ''reboot'', ''recovery''] s1
                   in case result2 of
                        Raised e \<Rightarrow> (False, s2)
                      | Completed rc2 out2 err2 \<Rightarrow> (rc2 = 0, s2)))"


definition handle_backup_error :: "world \<Rightarrow> py_exception \<Rightarrow> state \<Rightarrow> dict \<times> state" where
  "handle_backup_error w error s =
     (let (can_recover, s1) = check_recovery_possible w s
      in ([(''status'', PStr ''error''),
           (''message'', PStr ''Backup operation failed''),
           (''error'', PStr (exc_str error)),
           (''recoverable'', PBool can_recover),
           (''timestamp'', PStr (now_isoformat w (trace s1)))], s1))"

text \<open>The partition loops. The first component of the result is the early return of the
  enclosing function, if any; the second is the results dictionary built so far.\<close>

fun backup_loop ::
  "world \<Rightarrow> device_info \<Rightarrow> string \<Rightarrow> string list \<Rightarrow> dict \<Rightarrow> state
   \<Rightarrow> (py_exception + dict option \<times> dict) \<times> state" where
  "backup_loop w device_info backup_path [] backup_results s = (Inr (None, backup_results), s)"
| "backup_loop w device_info backup_path (part # rest) backup_results s =
     (let (result, s1) = backup_partition w device_info part backup_path s;
          backup_results' = dict_set part (PDict result) backup_results
      in case subscript result ''success'' of
           Inl e \<Rightarrow> (Inl e, s1)
         | Inr v \<Rightarrow>
             (if \<not> truthy v
              then (Inr (Some [(''status'', PStr ''error''),
                               (''message'', PStr (''Backup failed for '' @ part)),
                               (''details'', PDict result)], backup_results'), s1)
              else backup_loop w device_info backup_path rest backup_results' s1))"

definition create_backup :: "world \<Rightarrow> device_info \<Rightarrow> state \<Rightarrow> dict \<times> state" where
  "create_backup w device_info s =
     (let backup_path = get_backup_path w device_info s
      in case makedirs w backup_path of
           Some e \<Rightarrow> handle_backup_error w e s
         | None \<Rightarrow>
             (case create_backup_info w backup_path device_info s of
                (Some e, s1) \<Rightarrow> handle_backup_error w e s1
              | (None, s1) \<Rightarrow>
                  (case backup_loop w device_info backup_path critical_partitions [] s1 of
                     (Inl e, s2) \<Rightarrow> handle_backup_error w e s2
                   | (Inr (Some early, backup_results), s2) \<Rightarrow> (early, s2)
                   | (Inr (None, backup_results), s2) \<Rightarrow>
                       (case create_verification_file w backup_path backup_results s2 of
                          (Some e, s3) \<Rightarrow> handle_backup_error w e s3
                        | (None, s3) \<Rightarrow>
                            ([(''status'', PStr ''success''),
                              (''backup_path'', PStr backup_path),
                              (''results'', PDict backup_results)], s3)))))"

fun restore_loop ::
  "world \<Rightarrow> device_info \<Rightarrow> string \<Rightarrow> string list \<Rightarrow> dict \<Rightarrow> state
   \<Rightarrow> (py_exception + dict option \<times> dict) \<times> state" where
  "restore_loop w device_info backup_path [] restore_results s = (Inr (None, restore_results), s)"
| "restore_loop w device_info backup_path (part # rest) restore_results s =
     (let (result, s1) = restore_partition w device_info part backup_path s;
          restore_results' = dict_set part (PDict result) restore_results
      in case subscript result ''success'' of
           Inl e \<Rightarrow> (Inl e, s1)
         | Inr v \<Rightarrow>
             (if \<not> truthy v
              then (Inr (Some [(''status'', PStr ''error''),
                               (''message'', PStr (''Restore failed for '' @ part)),
                               (''details'', PDict result)], restore_results'), s1)
              else restore_loop w device_info backup_path rest restore_results' s1))"

definition restore_backup :: "world \<Rightarrow> string \<Rightarrow> device_info \<Rightarrow> state \<Rightarrow> dict \<times> state" where
  "restore_backup w backup_path device_info s =
     (if \<not> verify_backup_integrity w backup_path
      then ([(''status'', PStr ''error''), (''message'', PStr ''Backup integrity check failed'')], s)
      else (case restore_loop w device_info backup_path critical_partitions [] s of
              (Inl e, s1) \<Rightarrow>
                ([(''status'', PStr ''error''),
                  (''message'', PStr (''Restore failed: '' @ exc_str e))], s1)
            | (Inr (Some early, restore_results), s1) \<Rightarrow> (early, s1)
            | (Inr (None, restore_results), s1) \<Rightarrow>
                ([(''status'', PStr ''success''),
                  (''message'', PStr ''Backup restored successfully''),
                  (''results'', PDict restore_results)], s1)))"

section \<open>The device manager\<close>

datatype DeviceState = UNKNOWN | NORMAL | META | FASTBOOT | RECOVERY

definition supported_chipsets :: "string list" where
  "supported_chipsets = [''MT6789'', ''MT6833'', ''MT6853'', ''MT6873'',
                         ''MT6885'', ''MT6889'', ''MT6893'', ''MT6895'']"

definition meta_commands :: "(string \<times> string list) list" where
  "meta_commands = map (\<lambda>c. (c, [''adb reboot meta'', ''meta_mode --force''])) supported_chipsets"

definition frp_commands :: "(string \<times> string list) list" where
  "frp_commands =
     [(''MT6789'', [''fastboot erase frp'', ''fastboot erase config'', ''fastboot reboot'']),
      (''MT6833'', [''fastboot erase frp'', ''fastboot erase persist'', ''fastboot reboot'']),
      (''MT6853'', [''fastboot erase frp'', ''fastboot erase config'', ''fastboot erase persist'',
                    ''fastboot reboot'']),
      (''MT6873'', [''fastboot erase frp'', ''fastboot erase config'', ''fastboot erase persist'',
                    ''fastboot reboot'']),
      (''MT6885'', [''fastboot erase frp'', ''fastboot erase config'', ''fastboot erase persist'',
                    ''fastboot reboot'']),
      (''MT6889'', [''fastboot erase frp'', ''fastboot erase config'', ''fastboot erase persist'',
                    ''fastboot reboot'']),
      (''MT6893'', [''fastboot erase frp'', ''fastboot erase config'', ''fastboot erase persist'',
                    ''fastboot reboot'']),
      (''MT6895'', [''fastboot erase frp'', ''fastboot erase config'', ''fastboot erase persist'',
                    ''fastboot reboot''])]"

definition adb_exists :: "world \<Rightarrow> bool" where
  "adb_exists w = which w ''adb''"

definition fastboot_exists :: "world \<Rightarrow> bool" where
  "fastboot_exists w = which w ''fastboot''"

definition state_map :: "(string \<times> DeviceState) list" where
  "state_map = [(''device'', NORMAL), (''recovery'', RECOVERY), (''fastboot'', FASTBOOT),
                (''sideload'', UNKNOWN)]"

definition get_device_state :: "world \<Rightarrow> state \<Rightarrow> DeviceState \<times> state" where
  "get_device_state w s =
     (let (result, s1) = subprocess_run w [''adb'', ''get-state''] s
      in case result of
           Raised e \<Rightarrow> (UNKNOWN, s1)
         | Completed rc out err \<Rightarrow>
             ((case map_of state_map (py_strip out) of None \<Rightarrow> UNKNOWN | Some st \<Rightarrow> st), s1))"

definition execute_command :: "world \<Rightarrow> string \<Rightarrow> state \<Rightarrow> dict \<times> state" where
  "execute_command w cmd s =
     (if py_contains ''adb'' cmd \<and> \<not> adb_exists w
      then ([(''success'', PBool False),
             (''message'', PStr ''ADB not found. Please install ADB and add it to PATH.'')], s)
      else if py_contains ''fastboot'' cmd \<and> \<not> fastboot_exists w
      then ([(''success'', PBool False),
             (''message'', PStr ''Fastboot not found. Please install Fastboot and add it to PATH.'')], s)
      else let (result, s1) = subprocess_run w (py_split cmd) s
           in case result of
                Raised (TimeoutExpired m) \<Rightarrow>
                  ([(''success'', PBool False), (''message'', PStr (''Command timed out: '' @ cmd))], s1)
              | Raised (Error m) \<Rightarrow>
                  ([(''success'', PBool False), (''message'', PStr (''Command error: '' @ m))], s1)
              | Completed rc out err \<Rightarrow>
                  (if rc \<noteq> 0
                   then ([(''success'', PBool False),
                          (''message'', PStr (''Command failed: '' @ cmd)),
                          (''stderr'', PStr (py_strip err)),
                          (''stdout'', PStr (py_strip out))], s1)
                   else ([(''success'', PBool True), (''stdout'', PStr (py_strip out))], s1)))"

definition get_battery_level :: "world \<Rightarrow> state \<Rightarrow> int \<times> state" where
  "get_battery_level w s =
     (let (result, s1) = subprocess_run w
            [''adb'', ''shell'', ''cat'', ''/sys/class/power_supply/battery/capacity''] s
      in case result of
           Raised e \<Rightarrow> (0, s1)
         | Completed rc out err \<Rightarrow>
             (case py_int_of_str (py_strip out) of Inl e \<Rightarrow> (0, s1) | Inr level \<Rightarrow> (level, s1)))"

definition verify_frp_safety :: "world \<Rightarrow> device_info \<Rightarrow> state \<Rightarrow> bool \<times> state" where
  "verify_frp_safety w device_info s =
     (let (st, s1) = get_device_state w s
      in if st \<noteq> FASTBOOT then (False, s1)
         else let (battery_level, s2) = get_battery_level w s1
              in if battery_level < 20 then (False, s2) else (True, s2))"

definition verify_frp_removal :: "world \<Rightarrow> state \<Rightarrow> bool \<times> state" where
  "verify_frp_removal w s =
     (let (result, s1) = execute_command w ''fastboot getvar frp'' s
      in case map_of result ''stdout'' of
           None \<Rightarrow> (py_contains ''empty'' (py_lower []), s1)
         | Some (PStr out) \<Rightarrow> (py_contains ''empty'' (py_lower out), s1)
         | Some v \<Rightarrow> (False, s1))"

text \<open>The command loops of the two handlers: \<open>Inr (Some r)\<close> is the early return of \<open>r\<close>.\<close>

fun command_loop ::
  "world \<Rightarrow> string list \<Rightarrow> state \<Rightarrow> (py_exception + dict option) \<times> state" where
  "command_loop w [] s = (Inr None, s)"
| "command_loop w (cmd # rest) s =
     (let (result, s1) = execute_command w cmd s
      in case subscript result ''success'' of
           Inl e \<Rightarrow> (Inl e, s1)
         | Inr v \<Rightarrow> (if \<not> truthy v then (Inr (Some result), s1) else command_loop w rest s1))"

definition handle_meta_mode :: "world \<Rightarrow> device_info \<Rightarrow> state \<Rightarrow> dict \<times> state" where
  "handle_meta_mode w device_info s =
     (let (current_state, s1) = get_device_state w s
      in if current_state = META
         then ([(''status'', PStr ''success''), (''message'', PStr ''Device already in Meta mode'')], s1)
         else (case (case map_of device_info ''chipset'' of
                       None \<Rightarrow> None
                     | Some chipset \<Rightarrow> (if chipset = [] then None else map_of meta_commands chipset)) of
                 None \<Rightarrow>
                   ([(''status'', PStr ''error''),
                     (''message'', PStr ''Unsupported chipset for Meta mode'')], s1)
               | Some cmds \<Rightarrow>
                   (case command_loop w cmds s1 of
                      (Inl e, s2) \<Rightarrow>
                        ([(''status'', PStr ''error''),
                          (''message'', PStr ''Meta mode operation failed''),
                          (''error'', PStr (exc_str e))], s2)
                    | (Inr (Some result), s2) \<Rightarrow> (result, s2)
                    | (Inr None, s2) \<Rightarrow>
                        (let (final_state, s3) = get_device_state w s2
                         in if final_state \<noteq> META
                            then ([(''status'', PStr ''error''),
                                   (''message'', PStr ''Failed to enter Meta mode'')], s3)
                            else ([(''status'', PStr ''success''),
                                   (''message'', PStr ''Successfully entered Meta mode''),
                                   (''device_state'', PStr ''meta'')], s3)))))"

definition handle_frp :: "world \<Rightarrow> device_info \<Rightarrow> state \<Rightarrow> dict \<times> state" where
  "handle_frp w device_info s =
     (let (safe, s1) = verify_frp_safety w device_info s
      in if \<not> safe
         then ([(''status'', PStr ''error''),
                (''message'', PStr ''FRP operation safety check failed'')], s1)
         else (case (case map_of device_info ''chipset'' of
                       None \<Rightarrow> None
                     | Some chipset \<Rightarrow> (if chipset = [] then None else map_of frp_commands chipset)) of
                 None \<Rightarrow>
                   ([(''status'', PStr ''error''),
                     (''message'', PStr ''Unsupported chipset for FRP removal'')], s1)
               | Some cmds \<Rightarrow>
                   (case command_loop w cmds s1 of
                      (Inl e, s2) \<Rightarrow>
                        ([(''status'', PStr ''error''),
                          (''message'', PStr ''FRP removal failed''),
                          (''error'', PStr (exc_str e))], s2)
                    | (Inr (Some result), s2) \<Rightarrow> (result, s2)
                    | (Inr None, s2) \<Rightarrow>
                        (let (removed, s3) = verify_frp_removal w s2
                         in if \<not> removed
                            then ([(''status'', PStr ''error''),
                                   (''message'', PStr ''FRP removal verification failed'')], s3)
                            else ([(''status'', PStr ''success''),
                                   (''message'', PStr ''FRP removed successfully'')], s3)))))"




section \<open>The report manager\<close>





section \<open>The tool: operation dispatch\<close>







section \<open>Notions used in the statements\<close>

text \<open>The commands issued between two states.\<close>

definition new_commands :: "state \<Rightarrow> state \<Rightarrow> string list list" where
  "new_commands s s' = drop (length (trace s)) (trace s')"

definition safe_of :: "dict \<Rightarrow> bool" where
  "safe_of r = (map_of r ''safe'' = Some (PBool True))"

text \<open>The safety gate as the specification words it: the stages run in the given order, and the
  result of the first stage that is not safe is returned as it is.\<close>

fun first_failure ::
  "(world \<Rightarrow> device_info \<Rightarrow> state \<Rightarrow> dict \<times> state) list \<Rightarrow> world \<Rightarrow> device_info \<Rightarrow> state
   \<Rightarrow> dict \<times> state" where
  "first_failure [] w device_info s =
     ([(''safe'', PBool True), (''message'', PStr ''All safety checks passed'')], s)"
| "first_failure (stage # stages) w device_info s =
     (let (r, s1) = stage w device_info s
      in if safe_of r then first_failure stages w device_info s1 else (r, s1))"

definition battery_command :: "string list" where
  "battery_command = [''adb'', ''shell'', ''cat'', ''/sys/class/power_supply/battery/capacity'']"

definition storage_command :: "string list" where
  "storage_command = [''adb'', ''shell'', ''df'', ''-h'', ''/data'']"


definition integrity_check_failed :: dict where
  "integrity_check_failed =
     [(''status'', PStr ''error''), (''message'', PStr ''Backup integrity check failed'')]"



definition is_erase :: "string list \<Rightarrow> bool" where
  "is_erase argv = (take 2 argv = [''fastboot'', ''erase''])"

text \<open>The FRP variable reports empty: \<open>fastboot\<close> is installed and the query
  \<open>fastboot getvar frp\<close>, issued in state \<open>s\<close>, completes with an output that contains
  \<open>empty\<close> in any letter case.\<close>

definition frp_reports_empty :: "world \<Rightarrow> state \<Rightarrow> bool" where
  "frp_reports_empty w s =
     (fastboot_exists w \<and>
      (case proc w (trace s) [''fastboot'', ''getvar'', ''frp''] of
         Completed rc out err \<Rightarrow> py_contains ''empty'' (py_lower (py_strip out))
       | Raised e \<Rightarrow> False))"

text \<open>The command sequence of a chipset, as both handlers look it up: none for a missing or
  empty chipset name.\<close>

definition chipset_commands :: "(string \<times> string list) list \<Rightarrow> device_info \<Rightarrow> string list option" where
  "chipset_commands table device_info =
     (case map_of device_info ''chipset'' of
        None \<Rightarrow> None
      | Some chipset \<Rightarrow> (if chipset = [] then None else map_of table chipset))"

text \<open>The commands that back up, and that restore, one partition.\<close>

definition dump_command :: "string \<Rightarrow> string list" where
  "dump_command part =
     [''adb'', ''shell'', ''dd'', ''if=/dev/block/by-name/'' @ part, ''of=/data/local/tmp/temp.img'']"

definition cleanup_command :: "string list" where
  "cleanup_command = [''adb'', ''shell'', ''rm'', ''/data/local/tmp/temp.img'']"

definition backup_commands :: "string \<Rightarrow> string \<Rightarrow> string list list" where
  "backup_commands backup_path part =
     [dump_command part,
      [''adb'', ''pull'', ''/data/local/tmp/temp.img'', os_path_join backup_path (part @ ''.img'')],
      cleanup_command]"




text \<open>Entries of a results dictionary: the entry a successful backup of a partition leaves, and
  whether an entry records a success.\<close>

definition success_entry :: "string \<Rightarrow> string \<Rightarrow> string \<times> pyval" where
  "success_entry backup_path part =
     (part, PDict [(''success'', PBool True),
                   (''path'', PStr (os_path_join backup_path (part @ ''.img'')))])"

definition entry_succeeded :: "string \<times> pyval \<Rightarrow> bool" where
  "entry_succeeded kv =
     (case snd kv of PDict r \<Rightarrow> map_of r ''success'' = Some (PBool True) | _ \<Rightarrow> False)"

definition entry_failed :: "string \<times> pyval \<Rightarrow> bool" where
  "entry_failed kv =
     (case snd kv of PDict r \<Rightarrow> map_of r ''success'' = Some (PBool False) | _ \<Rightarrow> False)"

text \<open>The files the program itself has written between two states.\<close>

definition new_files :: "state \<Rightarrow> state \<Rightarrow> (string \<times> pyval) list" where
  "new_files s s' = drop (length (written s)) (written s')"

text \<open>\<open>int(x)\<close> inside the handler of \<open>_convert_to_mb\<close>: the integer, or 0 when the
  conversion raises.\<close>

definition int_or_zero :: "pyfloat \<Rightarrow> int" where
  "int_or_zero x = (case py_int_of_float x of Inl e \<Rightarrow> 0 | Inr v \<Rightarrow> v)"

section \<open>Concrete hosts and devices\<close>

text \<open>A device that is connected in normal mode with serial ABC123, a battery at 87 percent, all
  critical partitions and 97G of free storage; every other command succeeds silently.\<close>

definition healthy_device :: "string list list \<Rightarrow> string list \<Rightarrow> proc_result" where
  "healthy_device history argv =
     (if argv = battery_command then Completed 0 [CHR ''8'', CHR ''7'', CHR 0x0A] []
      else if argv = [''adb'', ''devices'']
        then Completed 0 (''List of devices attached'' @ [CHR 0x0A] @ ''ABC123  device'' @ [CHR 0x0A]) []
      else if argv = [''adb'', ''get-state''] then Completed 0 (''device'' @ [CHR 0x0A]) []
      else if argv = [''adb'', ''shell'', ''ls'', ''/dev/block/by-name/'']
        then Completed 0 (''boot nvram persist'' @ [CHR 0x0A] @ ''security system userdata'') []
      else if argv = storage_command
        then Completed 0 (''Filesystem Size Used Avail Use% Mounted on'' @ [CHR 0x0A]
                          @ ''/dev/block/dm-5 108G 11G 97G 11% /data'' @ [CHR 0x0A]) []
      else Completed 0 [] [])"

definition host0 :: world where
  "host0 = \<lparr>proc = healthy_device, which = (\<lambda>tool. True), path_exists = (\<lambda>path. False),
            load_partitions = (\<lambda>path. Inl (Error ''No such file or directory'')),
            makedirs = (\<lambda>path. None), write_json = (\<lambda>path. None), render_pdf = (\<lambda>path. None),
            now_isoformat = (\<lambda>history. ''2024-01-01T00:00:00''),
            now_strftime = (\<lambda>history. ''20240101_000000'')\<rparr>"

definition s0 :: state where
  "s0 = \<lparr>trace = [], written = [], current_report = None, report_data = [],
          current_device = None\<rparr>"

definition di0 :: device_info where
  "di0 = [(''chipset'', ''MT6789''), (''serial'', ''ABC123''), (''model'', ''X1'')]"

text \<open>A backup directory without its verification file.\<close>

definition host_no_verification :: world where
  "host_no_verification =
     host0\<lparr>path_exists := (\<lambda>path. path = ''/b/X1/backup_info.json''),
           load_partitions := (\<lambda>path. Inr critical_partitions)\<rparr>"

text \<open>A device whose battery reads 5 percent.\<close>

definition low_battery_device :: "string list list \<Rightarrow> string list \<Rightarrow> proc_result" where
  "low_battery_device history argv =
     (if argv = battery_command then Completed 0 [CHR ''5'', CHR 0x0A] []
      else healthy_device history argv)"

text \<open>A host on which \<open>adb\<close> cannot be started.\<close>

definition no_adb_device :: "string list list \<Rightarrow> string list \<Rightarrow> proc_result" where
  "no_adb_device history argv = Raised (Error ''No such file or directory: adb'')"

text \<open>A device in META mode, for which \<open>adb get-state\<close> prints \<open>meta\<close>.\<close>

definition meta_device :: "string list list \<Rightarrow> string list \<Rightarrow> proc_result" where
  "meta_device history argv =
     (if argv = [''adb'', ''get-state''] then Completed 0 (''meta'' @ [CHR 0x0A]) []
      else healthy_device history argv)"

text \<open>A device in fastboot mode whose FRP variable reads empty.\<close>

definition fastboot_device :: "string list list \<Rightarrow> string list \<Rightarrow> proc_result" where
  "fastboot_device history argv =
     (if argv = [''adb'', ''get-state''] then Completed 0 (''fastboot'' @ [CHR 0x0A]) []
      else if argv = [''fastboot'', ''getvar'', ''frp'']
        then Completed 0 (''frp: EMPTY'' @ [CHR 0x0A]) []
      else healthy_device history argv)"


text \<open>A device on which dumping the third critical partition, persist, fails.\<close>

definition persist_fails_device :: "string list list \<Rightarrow> string list \<Rightarrow> proc_result" where
  "persist_fails_device history argv =
     (if argv = dump_command ''persist'' then Completed 1 [] ''dd: No space left on device''
      else healthy_device history argv)"

section \<open>Evaluation rules\<close>

lemmas float_eval = round64_def round64_scaled_def round64_decimal_def floor_log2_def
  round_half_even_def float_of_int_def trunc_def Let_def bit_length.simps

lemmas str_eval = py_strip_def is_space_def is_digit_def digit_val_def digits_value_def
  split_sign_def parse_decimal_def parse_exponent_def py_lower_def lower_char_def upper_char_def
  py_float_of_str_def py_int_of_str_def

section \<open>Storage arithmetic\<close>

text \<open>C9: for the fixed critical set of six partitions, which includes userdata, the required
  space is exactly 2520 MB: (500 + 100 * 6 + 1000) multiplied by the binary64 constant 1.2 and
  truncated to an integer. The product is computed in binary64 arithmetic, where it rounds to
  2520.0 exactly.\<close>

theorem calculate_required_space_2520:
  "calculate_required_space = Inr 2520
   \<and> length critical_partitions = 6
   \<and> ''userdata'' \<in> set critical_partitions
   \<and> (500 + 100 * int (length critical_partitions) + 1000) * 12 = 2520 * 10"
  by (simp add: calculate_required_space_def critical_partitions_def float_eval)

section \<open>Restore: the integrity gate\<close>

lemma find_Some_if: "x \<in> set xs \<Longrightarrow> P x \<Longrightarrow> \<exists>y. find P xs = Some y"
  by (cases "find P xs") (auto simp: find_None_iff)

text \<open>C1: when the backup directory lacks backup_info.json, or lacks verification.json, or lacks
  the image of a partition that the manifest names, \<open>restore_backup\<close> returns the error
  "Backup integrity check failed" and leaves the state as it was: no command is issued.\<close>

theorem restore_backup_integrity_gate:
  assumes "\<not> path_exists w (os_path_join backup_path ''backup_info.json'')
           \<or> \<not> path_exists w (os_path_join backup_path ''verification.json'')
           \<or> (\<exists>partitions part.
                 load_partitions w (os_path_join backup_path ''backup_info.json'') = Inr partitions
                 \<and> part \<in> set partitions
                 \<and> \<not> path_exists w (os_path_join backup_path (part @ ''.img'')))"
  shows "restore_backup w backup_path device_info s = (integrity_check_failed, s)
         \<and> new_commands s (snd (restore_backup w backup_path device_info s)) = []"
proof -
  have "\<not> verify_backup_integrity w backup_path"
    using assms
    by (auto simp: verify_backup_integrity_def Let_def find_None_iff
             split: sum.splits option.splits)
  then show ?thesis
    by (simp add: restore_backup_def integrity_check_failed_def new_commands_def)
qed

theorem restore_backup_integrity_gate_witness:
  "\<not> path_exists host_no_verification (os_path_join ''/b/X1'' ''verification.json'')
   \<and> restore_backup host_no_verification ''/b/X1'' di0 s0 = (integrity_check_failed, s0)
   \<and> new_commands s0 (snd (restore_backup host_no_verification ''/b/X1'' di0 s0)) = []"
proof -
  have h: "\<not> path_exists host_no_verification (os_path_join ''/b/X1'' ''verification.json'')"
    by (simp add: host_no_verification_def os_path_join_def)
  then show ?thesis
    using restore_backup_integrity_gate [of host_no_verification "''/b/X1''" di0 s0] by blast
qed

section \<open>The safety gate\<close>

lemma check_battery_shape:
  "\<exists>b r. check_battery w di s = ((''safe'', PBool b) # r, s\<lparr>trace := trace s @ [battery_command]\<rparr>)
         \<and> map_of r ''error'' = None"
  by (auto simp: check_battery_def subprocess_run_def battery_command_def
           split: proc_result.splits sum.splits)

lemma check_connection_shape:
  "\<exists>b r. check_connection w di s =
           ((''safe'', PBool b) # r, s\<lparr>trace := trace s @ [[''adb'', ''devices'']]\<rparr>)
         \<and> map_of r ''error'' = None"
  by (auto simp: check_connection_def subprocess_run_def
           split: proc_result.splits sum.splits option.splits)

lemma verify_device_state_shape:
  "\<exists>b r. verify_device_state w di s =
           ((''safe'', PBool b) # r, s\<lparr>trace := trace s @ [[''adb'', ''get-state'']]\<rparr>)
         \<and> map_of r ''error'' = None"
  by (auto simp: verify_device_state_def subprocess_run_def Let_def
           split: proc_result.splits sum.splits option.splits)

lemma check_critical_partitions_shape:
  "\<exists>b r. check_critical_partitions w di s =
           ((''safe'', PBool b) # r,
            s\<lparr>trace := trace s @ [[''adb'', ''shell'', ''ls'', ''/dev/block/by-name/'']]\<rparr>)
         \<and> map_of r ''error'' = None"
  by (auto simp: check_critical_partitions_def subprocess_run_def Let_def
           split: proc_result.splits sum.splits option.splits)

lemma check_backup_availability_shape:
  "\<exists>b r. check_backup_availability w di s =
           ((''safe'', PBool b) # r, s\<lparr>trace := trace s @ [storage_command]\<rparr>)
         \<and> map_of r ''error'' = None"
  by (auto simp: check_backup_availability_def subprocess_run_def Let_def storage_command_def
           split: proc_result.splits sum.splits option.splits)

lemma check_safety_refines:
  "check_safety w di s =
     first_failure [check_battery, check_connection, verify_device_state,
                    check_critical_partitions, check_backup_availability] w di s"
proof -
  obtain b1 r1 where 1: "check_battery w di s =
      ((''safe'', PBool b1) # r1, s\<lparr>trace := trace s @ [battery_command]\<rparr>)"
    using check_battery_shape by blast
  obtain b2 r2 s2 where 2: "check_connection w di (s\<lparr>trace := trace s @ [battery_command]\<rparr>) =
      ((''safe'', PBool b2) # r2, s2)"
    using check_connection_shape by blast
  obtain b3 r3 s3 where 3: "verify_device_state w di s2 = ((''safe'', PBool b3) # r3, s3)"
    using verify_device_state_shape by blast
  obtain b4 r4 s4 where 4: "check_critical_partitions w di s3 = ((''safe'', PBool b4) # r4, s4)"
    using check_critical_partitions_shape by blast
  obtain b5 r5 s5 where 5: "check_backup_availability w di s4 = ((''safe'', PBool b5) # r5, s5)"
    using check_backup_availability_shape by blast
  show ?thesis
    by (simp add: check_safety_def safety_checks_pre_operation_def getattr_check_def
          subscript_def safe_of_def 1 2 3 4 5)
qed

lemma first_failure_no_error_key:
  assumes "\<And>stage s. stage \<in> set stages \<Longrightarrow> map_of (fst (stage w di s)) ''error'' = None"
  shows "map_of (fst (first_failure stages w di s)) ''error'' = None"
  using assms
proof (induction stages arbitrary: s)
  case Nil
  then show ?case by simp
next
  case (Cons stage stages)
  obtain r s1 where st: "stage w di s = (r, s1)" by (cases "stage w di s")
  have "map_of r ''error'' = None"
    using Cons.prems [of stage s] st by simp
  moreover have "map_of (fst (first_failure stages w di s1)) ''error'' = None"
    using Cons.IH Cons.prems by simp
  ultimately show ?case by (simp add: st)
qed

lemma stage_no_error_key:
  assumes "stage \<in> set [check_battery, check_connection, verify_device_state,
                         check_critical_partitions, check_backup_availability]"
  shows "map_of (fst (stage w di s)) ''error'' = None"
proof -
  consider "stage = check_battery" | "stage = check_connection" | "stage = verify_device_state"
    | "stage = check_critical_partitions" | "stage = check_backup_availability"
    using assms by auto
  then show ?thesis
  proof cases
    case 1 then show ?thesis using check_battery_shape [of w di s] by auto
  next
    case 2 then show ?thesis using check_connection_shape [of w di s] by auto
  next
    case 3 then show ?thesis using verify_device_state_shape [of w di s] by auto
  next
    case 4 then show ?thesis using check_critical_partitions_shape [of w di s] by auto
  next
    case 5 then show ?thesis using check_backup_availability_shape [of w di s] by auto
  qed
qed

lemma check_safety_never_generic:
  "fst (check_safety w di s) \<noteq> handle_safety_error e"
proof -
  have "map_of (fst (check_safety w di s)) ''error'' = None"
    unfolding check_safety_refines
    by (rule first_failure_no_error_key) (rule stage_no_error_key)
  moreover have "map_of (handle_safety_error e) ''error'' \<noteq> None"
    by (simp add: handle_safety_error_def)
  ultimately show ?thesis by metis
qed

lemma check_safety_battery_fails:
  assumes "\<not> safe_of (fst (check_battery w di s))"
  shows "check_safety w di s = check_battery w di s"
    and "new_commands s (snd (check_safety w di s)) = [battery_command]"
proof -
  obtain b r where 1: "check_battery w di s =
      ((''safe'', PBool b) # r, s\<lparr>trace := trace s @ [battery_command]\<rparr>)"
    using check_battery_shape by blast
  show "check_safety w di s = check_battery w di s"
    using assms by (simp add: check_safety_refines 1)
  then show "new_commands s (snd (check_safety w di s)) = [battery_command]"
    by (simp add: 1 new_commands_def)
qed

text \<open>C3: \<open>check_safety\<close> runs the checks in the fixed order battery, connection, device
  state, critical partitions, storage availability, and returns the result of the first check that
  is not safe as it is, without running any later check; the state it returns is the one after that
  check. In particular, when the battery check fails the only command issued is the battery query,
  and the storage probe is not among the commands. An exception inside a check never reaches the
  caller: every check catches it and returns its own failure result, so the generic result of
  \<open>handle_safety_error\<close> ("Safety check failed") is never what \<open>check_safety\<close> returns.\<close>

theorem check_safety_first_failure:
  "check_safety w di s =
     first_failure [check_battery, check_connection, verify_device_state,
                    check_critical_partitions, check_backup_availability] w di s
   \<and> (\<not> safe_of (fst (check_battery w di s)) \<longrightarrow>
        check_safety w di s = check_battery w di s
        \<and> new_commands s (snd (check_safety w di s)) = [battery_command]
        \<and> storage_command \<notin> set (new_commands s (snd (check_safety w di s))))
   \<and> (\<forall>e. fst (check_safety w di s) \<noteq> handle_safety_error e)"
  using check_safety_refines [of w di s] check_safety_battery_fails [of w di s]
    check_safety_never_generic [of w di s]
  by (simp add: battery_command_def storage_command_def)

theorem check_safety_first_failure_witness:
  "\<not> safe_of (fst (check_battery (host0\<lparr>proc := low_battery_device\<rparr>) di0 s0))
   \<and> check_safety (host0\<lparr>proc := low_battery_device\<rparr>) di0 s0 =
       ([(''safe'', PBool False), (''message'', PStr ''Battery level too low''),
         (''required'', PStr ''20%''), (''current'', PStr ''5%'')],
        s0\<lparr>trace := [battery_command]\<rparr>)
   \<and> new_commands s0 (snd (check_safety (host0\<lparr>proc := low_battery_device\<rparr>) di0 s0)) = [battery_command]"
proof -
  have b: "check_battery (host0\<lparr>proc := low_battery_device\<rparr>) di0 s0 =
       ([(''safe'', PBool False), (''message'', PStr ''Battery level too low''),
         (''required'', PStr ''20%''), (''current'', PStr ''5%'')],
        s0\<lparr>trace := [battery_command]\<rparr>)"
    by (simp add: check_battery_def subprocess_run_def host0_def low_battery_device_def
          battery_command_def s0_def str_eval py_str_of_int_def)
  then have h: "\<not> safe_of (fst (check_battery (host0\<lparr>proc := low_battery_device\<rparr>) di0 s0))"
    by (simp add: safe_of_def)
  show ?thesis
    using check_safety_first_failure [of "host0\<lparr>proc := low_battery_device\<rparr>" di0 s0] h b
    by (simp add: new_commands_def s0_def)
qed

text \<open>The claim as worded says that an exception in a stage becomes the generic result
  "Safety check failed" with an error field. On a host where adb cannot be started the battery
  check raises, and the result is the battery check's own "Could not check battery".\<close>

theorem check_safety_exception_counterexample:
  "fst (check_safety (host0\<lparr>proc := no_adb_device\<rparr>) di0 s0) =
     [(''safe'', PBool False), (''message'', PStr ''Could not check battery'')]
   \<and> fst (check_safety (host0\<lparr>proc := no_adb_device\<rparr>) di0 s0) \<noteq>
     [(''safe'', PBool False), (''message'', PStr ''Safety check failed''),
      (''error'', PStr ''No such file or directory: adb'')]"
  by (simp add: check_safety_def safety_checks_pre_operation_def getattr_check_def
        check_battery_def subprocess_run_def host0_def no_adb_device_def subscript_def s0_def)


section \<open>The operation pipeline\<close>



lemma check_recovery_possible_state:
  "snd (check_recovery_possible w s) = s\<lparr>trace := trace s @ [[''adb'', ''devices'']]\<rparr>
   \<or> snd (check_recovery_possible w s) =
        s\<lparr>trace := trace s @ [[''adb'', ''devices''], [''adb'', ''reboot'', ''recovery'']]\<rparr>"
  by (simp add: check_recovery_possible_def subprocess_run_def split: proc_result.splits)

















section \<open>The device manager: META mode\<close>

lemma get_device_state_never_meta: "fst (get_device_state w s) \<noteq> META"
  by (auto simp: get_device_state_def subprocess_run_def state_map_def
           split: proc_result.splits option.splits if_splits)

lemma get_device_state_state:
  "snd (get_device_state w s) = s\<lparr>trace := trace s @ [[''adb'', ''get-state'']]\<rparr>"
  by (simp add: get_device_state_def subprocess_run_def split: proc_result.splits)

lemma execute_command_no_status: "map_of (fst (execute_command w cmd s)) ''status'' = None"
  by (simp add: execute_command_def subprocess_run_def
        split: proc_result.splits py_exception.splits)

lemma command_loop_early_no_status:
  "command_loop w cmds s = (Inr (Some r), s') \<Longrightarrow> map_of r ''status'' = None"
proof (induction cmds arbitrary: s)
  case Nil
  then show ?case by simp
next
  case (Cons cmd rest)
  obtain r1 s1 where ec: "execute_command w cmd s = (r1, s1)" by (cases "execute_command w cmd s")
  have ns: "map_of r1 ''status'' = None"
    using execute_command_no_status [of w cmd s] ec by simp
  show ?case
    using Cons.prems Cons.IH [of s1] ec ns
    by (auto simp: subscript_def split: option.splits if_splits)
qed

lemma handle_meta_mode_never_success:
  "map_of (fst (handle_meta_mode w di s)) ''status'' \<noteq> Some (PStr ''success'')"
proof -
  obtain st s1 where g1: "get_device_state w s = (st, s1)" by (cases "get_device_state w s")
  have st: "st \<noteq> META" using get_device_state_never_meta [of w s] g1 by simp
  show ?thesis
  proof (cases "case map_of di ''chipset'' of None \<Rightarrow> None
                | Some chipset \<Rightarrow> (if chipset = [] then None else map_of meta_commands chipset)")
    case None
    then show ?thesis using g1 st by (simp add: handle_meta_mode_def)
  next
    case (Some cmds)
    obtain res s2 where cl: "command_loop w cmds s1 = (res, s2)" by (cases "command_loop w cmds s1")
    obtain fs s3 where g2: "get_device_state w s2 = (fs, s3)" by (cases "get_device_state w s2")
    have fs: "fs \<noteq> META" using get_device_state_never_meta [of w s2] g2 by simp
    show ?thesis
    proof (cases res)
      case (Inl e)
      then show ?thesis using g1 st Some cl by (simp add: handle_meta_mode_def)
    next
      case (Inr early)
      show ?thesis
      proof (cases early)
        case None
        then show ?thesis using g1 st Some cl Inr g2 fs by (simp add: handle_meta_mode_def)
      next
        case (Some r)
        then have "map_of r ''status'' = None"
          using command_loop_early_no_status [of w cmds s1 r s2] cl Inr by simp
        then show ?thesis using g1 st \<open>_ = Some cmds\<close> cl Inr Some by (simp add: handle_meta_mode_def)
      qed
    qed
  qed
qed

text \<open>C6: the idempotent entry the claim describes needs the state query to report META. The table
  of \<open>_get_device_state\<close> maps no output of \<open>adb get-state\<close> to META, so the query never
  reports it, for any device; hence \<open>handle_meta_mode\<close> never returns a success result. On a
  device that is already in META mode (here one that prints \<open>meta\<close>) it issues the whole command
  sequence again and answers "Failed to enter Meta mode".\<close>

theorem handle_meta_mode_not_idempotent:
  "(\<forall>w s. fst (get_device_state w s) \<noteq> META)
   \<and> (\<forall>w di s. map_of (fst (handle_meta_mode w di s)) ''status'' \<noteq> Some (PStr ''success''))
   \<and> handle_meta_mode (host0\<lparr>proc := meta_device\<rparr>) di0 s0 =
       ([(''status'', PStr ''error''), (''message'', PStr ''Failed to enter Meta mode'')],
        s0\<lparr>trace := [[''adb'', ''get-state''], [''adb'', ''reboot'', ''meta''],
                       [''meta_mode'', ''--force''], [''adb'', ''get-state'']]\<rparr>)"
proof -
  have "handle_meta_mode (host0\<lparr>proc := meta_device\<rparr>) di0 s0 =
       ([(''status'', PStr ''error''), (''message'', PStr ''Failed to enter Meta mode'')],
        s0\<lparr>trace := [[''adb'', ''get-state''], [''adb'', ''reboot'', ''meta''],
                       [''meta_mode'', ''--force''], [''adb'', ''get-state'']]\<rparr>)"
    by (simp add: handle_meta_mode_def get_device_state_def subprocess_run_def state_map_def
          meta_commands_def supported_chipsets_def execute_command_def adb_exists_def
          fastboot_exists_def subscript_def host0_def meta_device_def healthy_device_def
          battery_command_def storage_command_def s0_def di0_def py_split_def py_strip_def
          is_space_def)
  then show ?thesis
    using get_device_state_never_meta handle_meta_mode_never_success by simp
qed

section \<open>The device manager: FRP removal\<close>

lemma verify_frp_removal_eq:
  "fst (verify_frp_removal w s) = frp_reports_empty w s"
  by (simp add: verify_frp_removal_def frp_reports_empty_def execute_command_def
        subprocess_run_def py_split_def is_space_def py_lower_def py_strip_def
        split: proc_result.splits py_exception.splits)

lemma get_battery_level_state:
  "snd (get_battery_level w s) = s\<lparr>trace := trace s @ [battery_command]\<rparr>"
  by (simp add: get_battery_level_def subprocess_run_def battery_command_def
        split: proc_result.splits sum.splits)

lemma verify_frp_safety_eq:
  "fst (verify_frp_safety w di s) =
     (fst (get_device_state w s) = FASTBOOT
      \<and> 20 \<le> fst (get_battery_level w (snd (get_device_state w s))))"
  by (auto simp: verify_frp_safety_def split: prod.splits)

lemma verify_frp_safety_commands:
  "new_commands s (snd (verify_frp_safety w di s)) = [[''adb'', ''get-state'']]
   \<or> new_commands s (snd (verify_frp_safety w di s)) = [[''adb'', ''get-state''], battery_command]"
proof -
  obtain st s1 where g: "get_device_state w s = (st, s1)" by (cases "get_device_state w s")
  have s1: "s1 = s\<lparr>trace := trace s @ [[''adb'', ''get-state'']]\<rparr>"
    using get_device_state_state [of w s] g by simp
  obtain lv s2 where b: "get_battery_level w s1 = (lv, s2)" by (cases "get_battery_level w s1")
  have s2: "s2 = s1\<lparr>trace := trace s1 @ [battery_command]\<rparr>"
    using get_battery_level_state [of w s1] b by simp
  show ?thesis
    using g b by (simp add: verify_frp_safety_def new_commands_def s1 s2)
qed

lemma handle_frp_unsafe:
  assumes "\<not> fst (verify_frp_safety w di s)"
  shows "handle_frp w di s =
           ([(''status'', PStr ''error''), (''message'', PStr ''FRP operation safety check failed'')],
            snd (verify_frp_safety w di s))"
proof -
  obtain s1 where "verify_frp_safety w di s = (False, s1)"
    using assms by (cases "verify_frp_safety w di s") simp
  then show ?thesis by (simp add: handle_frp_def)
qed

lemma handle_frp_completed:
  assumes "fst (verify_frp_safety w di s)"
    and "chipset_commands frp_commands di = Some cmds"
    and "command_loop w cmds (snd (verify_frp_safety w di s)) = (Inr None, s2)"
  shows "handle_frp w di s =
           (if frp_reports_empty w s2
            then [(''status'', PStr ''success''), (''message'', PStr ''FRP removed successfully'')]
            else [(''status'', PStr ''error''), (''message'', PStr ''FRP removal verification failed'')],
            snd (verify_frp_removal w s2))"
proof -
  obtain s1 where vs: "verify_frp_safety w di s = (True, s1)"
    using assms(1) by (cases "verify_frp_safety w di s") simp
  obtain rm s3 where vr: "verify_frp_removal w s2 = (rm, s3)" by (cases "verify_frp_removal w s2")
  have rm: "rm = frp_reports_empty w s2"
    using verify_frp_removal_eq [of w s2] vr by simp
  show ?thesis
    using assms(2,3) vs vr rm
    by (simp add: handle_frp_def chipset_commands_def)
qed

lemma handle_frp_success_only:
  assumes "map_of (fst (handle_frp w di s)) ''status'' = Some (PStr ''success'')"
  shows "fst (verify_frp_safety w di s)
         \<and> (\<exists>cmds s2. chipset_commands frp_commands di = Some cmds
               \<and> command_loop w cmds (snd (verify_frp_safety w di s)) = (Inr None, s2)
               \<and> frp_reports_empty w s2)"
proof -
  obtain sf s1 where vs: "verify_frp_safety w di s = (sf, s1)" by (cases "verify_frp_safety w di s")
  have sf: sf
    using assms vs by (cases sf) (simp_all add: handle_frp_def)
  obtain cmds where cc: "chipset_commands frp_commands di = Some cmds"
    using assms vs sf
    by (cases "chipset_commands frp_commands di") (simp_all add: handle_frp_def chipset_commands_def)
  obtain res s2 where cl: "command_loop w cmds s1 = (res, s2)" by (cases "command_loop w cmds s1")
  have res: "res = Inr None"
  proof (cases res)
    case (Inl e)
    then show ?thesis using assms vs sf cc cl by (simp add: handle_frp_def chipset_commands_def)
  next
    case (Inr early)
    show ?thesis
    proof (cases early)
      case None
      then show ?thesis using Inr by simp
    next
      case (Some r)
      then have "map_of r ''status'' = None"
        using command_loop_early_no_status [of w cmds s1 r s2] cl Inr by simp
      then show ?thesis
        using assms vs sf cc cl Inr Some by (simp add: handle_frp_def chipset_commands_def)
    qed
  qed
  have "handle_frp w di s =
           (if frp_reports_empty w s2
            then [(''status'', PStr ''success''), (''message'', PStr ''FRP removed successfully'')]
            else [(''status'', PStr ''error''), (''message'', PStr ''FRP removal verification failed'')],
            snd (verify_frp_removal w s2))"
    using handle_frp_completed [of w di s cmds s2] vs sf cc cl res by simp
  then have "frp_reports_empty w s2"
    using assms by (cases "frp_reports_empty w s2") simp_all
  then show ?thesis using vs sf cc cl res by auto
qed

text \<open>C7: \<open>handle_frp\<close> has its own gate. Unless the state query reads FASTBOOT and the
  battery level read right after it is at least 20, the result is the error "FRP operation safety
  check failed" and no erase command is among the commands issued. When the gate passes and the
  command sequence of the chipset runs to its end, the FRP variable is queried again and the result
  is success exactly when the response reports empty, and the error "FRP removal verification
  failed" otherwise. A success result is returned only in that way.\<close>

theorem handle_frp_gated:
  "(\<not> (fst (get_device_state w s) = FASTBOOT
        \<and> 20 \<le> fst (get_battery_level w (snd (get_device_state w s)))) \<longrightarrow>
      fst (handle_frp w di s) =
        [(''status'', PStr ''error''), (''message'', PStr ''FRP operation safety check failed'')]
      \<and> (\<forall>argv \<in> set (new_commands s (snd (handle_frp w di s))). \<not> is_erase argv))
   \<and> (\<forall>cmds s2.
        fst (get_device_state w s) = FASTBOOT
        \<and> 20 \<le> fst (get_battery_level w (snd (get_device_state w s)))
        \<and> chipset_commands frp_commands di = Some cmds
        \<and> command_loop w cmds (snd (verify_frp_safety w di s)) = (Inr None, s2) \<longrightarrow>
        fst (handle_frp w di s) =
          (if frp_reports_empty w s2
           then [(''status'', PStr ''success''), (''message'', PStr ''FRP removed successfully'')]
           else [(''status'', PStr ''error''),
                 (''message'', PStr ''FRP removal verification failed'')]))
   \<and> (map_of (fst (handle_frp w di s)) ''status'' = Some (PStr ''success'') \<longrightarrow>
        fst (get_device_state w s) = FASTBOOT
        \<and> 20 \<le> fst (get_battery_level w (snd (get_device_state w s)))
        \<and> (\<exists>cmds s2. chipset_commands frp_commands di = Some cmds
              \<and> command_loop w cmds (snd (verify_frp_safety w di s)) = (Inr None, s2)
              \<and> frp_reports_empty w s2))"
proof (intro conjI impI allI)
  assume a: "\<not> (fst (get_device_state w s) = FASTBOOT
        \<and> 20 \<le> fst (get_battery_level w (snd (get_device_state w s))))"
  then have u: "\<not> fst (verify_frp_safety w di s)" by (simp add: verify_frp_safety_eq)
  show "fst (handle_frp w di s) =
        [(''status'', PStr ''error''), (''message'', PStr ''FRP operation safety check failed'')]"
    using handle_frp_unsafe [OF u] by simp
  show "\<forall>argv \<in> set (new_commands s (snd (handle_frp w di s))). \<not> is_erase argv"
    using handle_frp_unsafe [OF u] verify_frp_safety_commands [of s w di]
    by (auto simp: is_erase_def battery_command_def)
next
  fix cmds s2
  assume "fst (get_device_state w s) = FASTBOOT
        \<and> 20 \<le> fst (get_battery_level w (snd (get_device_state w s)))
        \<and> chipset_commands frp_commands di = Some cmds
        \<and> command_loop w cmds (snd (verify_frp_safety w di s)) = (Inr None, s2)"
  then show "fst (handle_frp w di s) =
          (if frp_reports_empty w s2
           then [(''status'', PStr ''success''), (''message'', PStr ''FRP removed successfully'')]
           else [(''status'', PStr ''error''),
                 (''message'', PStr ''FRP removal verification failed'')])"
    using handle_frp_completed [of w di s cmds s2] by (simp add: verify_frp_safety_eq)
next
  assume s: "map_of (fst (handle_frp w di s)) ''status'' = Some (PStr ''success'')"
  show "fst (get_device_state w s) = FASTBOOT"
    using handle_frp_success_only [OF s] by (simp add: verify_frp_safety_eq)
  show "20 \<le> fst (get_battery_level w (snd (get_device_state w s)))"
    using handle_frp_success_only [OF s] by (simp add: verify_frp_safety_eq)
  show "\<exists>cmds s2. chipset_commands frp_commands di = Some cmds
              \<and> command_loop w cmds (snd (verify_frp_safety w di s)) = (Inr None, s2)
              \<and> frp_reports_empty w s2"
    using handle_frp_success_only [OF s] by simp
qed


lemmas device_eval = get_device_state_def get_battery_level_def
  execute_command_def adb_exists_def fastboot_exists_def subprocess_run_def state_map_def
  subscript_def py_split_def battery_command_def storage_command_def

theorem handle_frp_gated_witness:
  "fst (get_device_state (host0\<lparr>proc := fastboot_device\<rparr>) s0) = FASTBOOT
   \<and> 20 \<le> fst (get_battery_level (host0\<lparr>proc := fastboot_device\<rparr>)
                 (snd (get_device_state (host0\<lparr>proc := fastboot_device\<rparr>) s0)))
   \<and> frp_reports_empty (host0\<lparr>proc := fastboot_device\<rparr>)
        (s0\<lparr>trace := [[''adb'', ''get-state''], battery_command, [''fastboot'', ''erase'', ''frp''],
                        [''fastboot'', ''erase'', ''config''], [''fastboot'', ''reboot'']]\<rparr>)
   \<and> fst (handle_frp (host0\<lparr>proc := fastboot_device\<rparr>) di0 s0) =
        [(''status'', PStr ''success''), (''message'', PStr ''FRP removed successfully'')]
   \<and> fst (get_device_state host0 s0) \<noteq> FASTBOOT
   \<and> fst (handle_frp host0 di0 s0) =
        [(''status'', PStr ''error''), (''message'', PStr ''FRP operation safety check failed'')]"
proof -
  let ?w = "host0\<lparr>proc := fastboot_device\<rparr>"
  let ?s2 = "s0\<lparr>trace := [[''adb'', ''get-state''], battery_command, [''fastboot'', ''erase'', ''frp''],
                        [''fastboot'', ''erase'', ''config''], [''fastboot'', ''reboot'']]\<rparr>"
  have g: "get_device_state ?w s0 = (FASTBOOT, s0\<lparr>trace := [[''adb'', ''get-state'']]\<rparr>)"
    by (simp add: device_eval host0_def fastboot_device_def healthy_device_def s0_def str_eval)
  have b: "get_battery_level ?w (s0\<lparr>trace := [[''adb'', ''get-state'']]\<rparr>) =
             (87, s0\<lparr>trace := [[''adb'', ''get-state''], battery_command]\<rparr>)"
    by (simp add: device_eval host0_def fastboot_device_def healthy_device_def s0_def str_eval)
  have h1: "fst (get_device_state ?w s0) = FASTBOOT" using g by simp
  have h2: "20 \<le> fst (get_battery_level ?w (snd (get_device_state ?w s0)))" using g b by simp
  have vs: "verify_frp_safety ?w di0 s0 = (True, s0\<lparr>trace := [[''adb'', ''get-state''], battery_command]\<rparr>)"
    using g b by (simp add: verify_frp_safety_def)
  have h3: "chipset_commands frp_commands di0 =
              Some [''fastboot erase frp'', ''fastboot erase config'', ''fastboot reboot'']"
    by (simp add: chipset_commands_def frp_commands_def di0_def)
  have "command_loop ?w [''fastboot erase frp'', ''fastboot erase config'', ''fastboot reboot'']
              (s0\<lparr>trace := [[''adb'', ''get-state''], battery_command]\<rparr>) = (Inr None, ?s2)"
    by (simp add: execute_command_def adb_exists_def fastboot_exists_def subprocess_run_def
          subscript_def py_split_def battery_command_def storage_command_def host0_def
          fastboot_device_def healthy_device_def s0_def is_space_def py_strip_def)
  then have h4: "command_loop ?w [''fastboot erase frp'', ''fastboot erase config'', ''fastboot reboot'']
              (snd (verify_frp_safety ?w di0 s0)) = (Inr None, ?s2)"
    by (simp add: vs)
  have h5: "frp_reports_empty ?w ?s2"
    by (simp add: frp_reports_empty_def fastboot_exists_def host0_def fastboot_device_def
          s0_def str_eval)
  have n1: "fst (get_device_state host0 s0) \<noteq> FASTBOOT"
    by (simp add: device_eval host0_def healthy_device_def s0_def str_eval)
  have r1: "fst (handle_frp ?w di0 s0) =
        [(''status'', PStr ''success''), (''message'', PStr ''FRP removed successfully'')]"
    using handle_frp_gated [of ?w s0 di0] h1 h2 h3 h4 h5 by simp
  have r2: "fst (handle_frp host0 di0 s0) =
        [(''status'', PStr ''error''), (''message'', PStr ''FRP operation safety check failed'')]"
    using handle_frp_gated [of host0 s0 di0] n1 by blast
  show ?thesis using h1 h2 h5 r1 n1 r2 by blast
qed

section \<open>Restore: partitions outside the manifest\<close>











section \<open>Backup: the partition loop\<close>

lemma backup_partition_cases:
  "backup_partition w di p path s =
     ([(''success'', PBool True), (''path'', PStr (os_path_join path (p @ ''.img'')))],
      s\<lparr>trace := trace s @ backup_commands path p\<rparr>)
   \<or> (\<exists>e. fst (backup_partition w di p path s) = [(''success'', PBool False), (''error'', PStr e)])
      \<and> (snd (backup_partition w di p path s) = s\<lparr>trace := trace s @ take 1 (backup_commands path p)\<rparr>
         \<or> snd (backup_partition w di p path s) = s\<lparr>trace := trace s @ take 2 (backup_commands path p)\<rparr>
         \<or> snd (backup_partition w di p path s) = s\<lparr>trace := trace s @ backup_commands path p\<rparr>)"
  by (simp add: backup_partition_def subprocess_run_def backup_commands_def dump_command_def
        cleanup_command_def Let_def split: proc_result.splits)


lemma dict_set_absent: "k \<notin> fst ` set d \<Longrightarrow> dict_set k v d = d @ [(k, v)]"
  by (induction d) auto

lemma backup_loop_completed:
  "backup_loop w di path ps acc s = (Inr (None, acc'), s') \<Longrightarrow> distinct ps \<Longrightarrow>
   set ps \<inter> fst ` set acc = {} \<Longrightarrow>
   acc' = acc @ map (success_entry path) ps
   \<and> s' = s\<lparr>trace := trace s @ concat (map (backup_commands path) ps)\<rparr>"
proof (induction ps arbitrary: acc s)
  case Nil
  then show ?case by simp
next
  case (Cons p ps)
  consider (ok) "backup_partition w di p path s =
     ([(''success'', PBool True), (''path'', PStr (os_path_join path (p @ ''.img'')))],
      s\<lparr>trace := trace s @ backup_commands path p\<rparr>)"
    | (bad) e where "fst (backup_partition w di p path s) = [(''success'', PBool False), (''error'', PStr e)]"
    using backup_partition_cases [of w di p path s] by blast
  then show ?case
  proof cases
    case ok
    have absent: "p \<notin> fst ` set acc" using Cons.prems(3) by auto
    let ?acc1 = "acc @ [success_entry path p]"
    have step: "backup_loop w di path ps ?acc1 (s\<lparr>trace := trace s @ backup_commands path p\<rparr>)
                  = (Inr (None, acc'), s')"
      using Cons.prems(1) ok
      by (simp add: subscript_def dict_set_absent [OF absent] success_entry_def)
    have d: "distinct ps" using Cons.prems(2) by simp
    have dis: "set ps \<inter> fst ` set ?acc1 = {}"
      using Cons.prems(2,3) by (auto simp: success_entry_def)
    from Cons.IH [OF step d dis] show ?thesis by simp
  next
    case bad
    obtain r s1 where bp: "backup_partition w di p path s = (r, s1)"
      by (cases "backup_partition w di p path s")
    with bad Cons.prems(1) show ?thesis by (simp add: subscript_def)
  qed
qed

lemma backup_loop_append:
  "backup_loop w di path (pre @ rest) acc s =
     (case backup_loop w di path pre acc s of
        (Inr (None, acc1), s1) \<Rightarrow> backup_loop w di path rest acc1 s1
      | other \<Rightarrow> other)"
proof (induction pre arbitrary: acc s)
  case Nil
  then show ?case by simp
next
  case (Cons p pre)
  obtain r s1 where rp: "backup_partition w di p path s = (r, s1)"
    by (cases "backup_partition w di p path s")
  show ?case
    using Cons.IH by (simp add: rp Let_def split: sum.splits)
qed

lemma backup_loop_never_raises: "fst (backup_loop w di path ps acc s) \<noteq> Inl e"
proof (induction ps arbitrary: acc s)
  case Nil
  then show ?case by simp
next
  case (Cons p ps)
  consider (ok) "backup_partition w di p path s =
     ([(''success'', PBool True), (''path'', PStr (os_path_join path (p @ ''.img'')))],
      s\<lparr>trace := trace s @ backup_commands path p\<rparr>)"
    | (bad) e where "fst (backup_partition w di p path s) = [(''success'', PBool False), (''error'', PStr e)]"
    using backup_partition_cases [of w di p path s] by blast
  then show ?case
  proof cases
    case ok
    then show ?thesis using Cons.IH by (simp add: subscript_def)
  next
    case bad
    obtain r s1 where bp: "backup_partition w di p path s = (r, s1)"
      by (cases "backup_partition w di p path s")
    with bad show ?thesis by (simp add: subscript_def)
  qed
qed

lemma distinct_critical: "distinct critical_partitions"
  by (simp add: critical_partitions_def)

lemma create_backup_info_ok:
  "write_json w (os_path_join path ''backup_info.json'') = None \<Longrightarrow>
   create_backup_info w path di s =
     (None, s\<lparr>written := written s @
        [(os_path_join path ''backup_info.json'',
          PDict [(''timestamp'', PStr (now_isoformat w (trace s))),
                 (''device_info'', device_info_val di),
                 (''partitions'', PList (map PStr critical_partitions))])]\<rparr>)"
  by (simp add: create_backup_info_def json_dump_def)

lemma create_backup_info_failed:
  "write_json w (os_path_join path ''backup_info.json'') = Some e \<Longrightarrow>
   create_backup_info w path di s = (Some e, s)"
  by (simp add: create_backup_info_def json_dump_def)

lemma backup_partition_written: "written (snd (backup_partition w di p path s)) = written s"
  using backup_partition_cases [of w di p path s] by auto

lemma backup_partition_trace:
  "\<exists>cmds. trace (snd (backup_partition w di p path s)) = trace s @ cmds
          \<and> set cmds \<subseteq> set (backup_commands path p)"
proof -
  have sub: "set (take n (backup_commands path p)) \<subseteq> set (backup_commands path p)" for n
    by (rule set_take_subset)
  consider (a) "snd (backup_partition w di p path s) = s\<lparr>trace := trace s @ take 1 (backup_commands path p)\<rparr>"
    | (b) "snd (backup_partition w di p path s) = s\<lparr>trace := trace s @ take 2 (backup_commands path p)\<rparr>"
    | (c) "snd (backup_partition w di p path s) = s\<lparr>trace := trace s @ backup_commands path p\<rparr>"
    using backup_partition_cases [of w di p path s] by auto
  then show ?thesis
  proof cases
    case a
    then show ?thesis using sub [of 1] by (intro exI [of _ "take 1 (backup_commands path p)"]) simp
  next
    case b
    then show ?thesis using sub [of 2] by (intro exI [of _ "take 2 (backup_commands path p)"]) simp
  next
    case c
    then show ?thesis by (intro exI [of _ "backup_commands path p"]) simp
  qed
qed

lemma backup_partition_failed:
  assumes "map_of (fst (backup_partition w di p path s)) ''success'' \<noteq> Some (PBool True)"
  shows "\<exists>e. fst (backup_partition w di p path s) = [(''success'', PBool False), (''error'', PStr e)]"
  using backup_partition_cases [of w di p path s] assms by auto

lemma dump_not_in_backup_commands:
  "q \<noteq> q' \<Longrightarrow> dump_command q \<notin> set (backup_commands path q')"
  by (auto simp: backup_commands_def dump_command_def cleanup_command_def)

lemma verification_path_differs:
  "os_path_join path ''verification.json'' \<noteq> os_path_join path ''backup_info.json''"
  by (simp add: os_path_join_def)

lemma entry_succeeded_success_entry: "entry_succeeded (success_entry path q)"
  by (simp add: entry_succeeded_def success_entry_def)

lemma entry_failed_success_entry: "\<not> entry_failed (success_entry path q)"
  by (simp add: entry_failed_def success_entry_def)

lemma filter_success_entries:
  "filter entry_succeeded (map (success_entry path) ps) = map (success_entry path) ps"
  "filter entry_failed (map (success_entry path) ps) = []"
  by (induction ps) (simp_all add: entry_succeeded_success_entry entry_failed_success_entry)

lemma all_success_entries: "all_success (map (success_entry path) ps) = Inr True"
  by (induction ps) (simp_all add: success_entry_def subscript_def)

lemma backup_loop_effects:
  "written (snd (backup_loop w di path ps acc s)) = written s
   \<and> (\<exists>cmds. trace (snd (backup_loop w di path ps acc s)) = trace s @ cmds
              \<and> set cmds \<subseteq> (\<Union>q \<in> set ps. set (backup_commands path q)))"
proof (induction ps arbitrary: acc s)
  case Nil
  then show ?case by simp
next
  case (Cons p ps)
  obtain r s1 where bp: "backup_partition w di p path s = (r, s1)"
    by (cases "backup_partition w di p path s")
  have w1: "written s1 = written s"
    using backup_partition_written [of w di p path s] bp by simp
  obtain c1 where t1: "trace s1 = trace s @ c1" and c1: "set c1 \<subseteq> set (backup_commands path p)"
    using backup_partition_trace [of w di p path s] bp by auto
  let ?acc1 = "dict_set p (PDict r) acc"
  obtain c2 where t2: "trace (snd (backup_loop w di path ps ?acc1 s1)) = trace s1 @ c2"
    and c2: "set c2 \<subseteq> (\<Union>q \<in> set ps. set (backup_commands path q))"
    and w2: "written (snd (backup_loop w di path ps ?acc1 s1)) = written s1"
    using Cons.IH [of ?acc1 s1] by blast
  have step: "snd (backup_loop w di path (p # ps) acc s) = s1
              \<or> snd (backup_loop w di path (p # ps) acc s) = snd (backup_loop w di path ps ?acc1 s1)"
    by (simp add: bp Let_def split: sum.splits)
  then show ?case
  proof
    assume e: "snd (backup_loop w di path (p # ps) acc s) = s1"
    show ?thesis
      unfolding e using w1 t1 c1 by (intro conjI exI [of _ c1]) auto
  next
    assume e: "snd (backup_loop w di path (p # ps) acc s) = snd (backup_loop w di path ps ?acc1 s1)"
    show ?thesis
      unfolding e using w1 w2 t1 t2 c1 c2 by (intro conjI exI [of _ "c1 @ c2"]) auto
  qed
qed

lemma handle_backup_error_result:
  "map_of (fst (handle_backup_error w e s)) ''status'' = Some (PStr ''error'')
   \<and> map_of (fst (handle_backup_error w e s)) ''message'' = Some (PStr ''Backup operation failed'')
   \<and> written (snd (handle_backup_error w e s)) = written s"
  using check_recovery_possible_state [of w s]
  by (auto simp: handle_backup_error_def split: prod.splits)

lemma create_backup_abort:
  assumes path: "path = get_backup_path w di s"
    and res: "create_backup w di s = (result, s')"
    and split: "critical_partitions = pre @ p # post"
    and mk: "makedirs w path = None"
    and wr: "write_json w (os_path_join path ''backup_info.json'') = None"
    and pre: "backup_loop w di path pre [] (snd (create_backup_info w path di s)) = (Inr (None, acc), s2)"
    and fail: "map_of (fst (backup_partition w di p path s2)) ''success'' \<noteq> Some (PBool True)"
  shows "(\<exists>e. result = [(''status'', PStr ''error''),
                       (''message'', PStr (''Backup failed for '' @ p)),
                       (''details'', PDict [(''success'', PBool False), (''error'', PStr e)])]
            \<and> fst (backup_loop w di path critical_partitions []
                       (snd (create_backup_info w path di s))) =
                Inr (Some result, map (success_entry path) pre
                                   @ [(p, PDict [(''success'', PBool False), (''error'', PStr e)])]))
         \<and> acc = map (success_entry path) pre
         \<and> map fst (new_files s s') = [os_path_join path ''backup_info.json'']
         \<and> os_path_join path ''verification.json'' \<notin> fst ` set (new_files s s')
         \<and> (\<forall>q \<in> set post. dump_command q \<notin> set (new_commands s s'))"
proof -
  define s1 where "s1 = snd (create_backup_info w path di s)"
  define info where "info = PDict [(''timestamp'', PStr (now_isoformat w (trace s))),
                 (''device_info'', device_info_val di),
                 (''partitions'', PList (map PStr critical_partitions))]"
  have cbi: "create_backup_info w path di s = (None, s1)"
    and s1: "s1 = s\<lparr>written := written s @ [(os_path_join path ''backup_info.json'', info)]\<rparr>"
    using create_backup_info_ok [OF wr, of di s] by (simp_all add: s1_def info_def)
  have dist: "distinct (pre @ p # post)"
    using distinct_critical split by simp
  have loop_pre: "backup_loop w di path pre [] s1 = (Inr (None, acc), s2)"
    using pre by (simp add: s1_def)
  have acc: "acc = map (success_entry path) pre"
    and s2: "s2 = s1\<lparr>trace := trace s1 @ concat (map (backup_commands path) pre)\<rparr>"
    using backup_loop_completed [OF loop_pre] dist by simp_all
  obtain r s3 where bp: "backup_partition w di p path s2 = (r, s3)"
    by (cases "backup_partition w di p path s2")
  obtain e where r: "r = [(''success'', PBool False), (''error'', PStr e)]"
    using backup_partition_failed [OF fail] bp by auto
  have absent: "p \<notin> fst ` set acc"
    using dist by (auto simp: acc success_entry_def)
  let ?early = "[(''status'', PStr ''error''), (''message'', PStr (''Backup failed for '' @ p)),
                 (''details'', PDict r)]"
  have loop_all: "backup_loop w di path critical_partitions [] s1 =
                    (Inr (Some ?early, acc @ [(p, PDict r)]), s3)"
    unfolding split
    by (simp add: backup_loop_append loop_pre bp r subscript_def dict_set_absent [OF absent])
  have cb: "create_backup w di s = (?early, s3)"
    using mk cbi loop_all by (simp add: create_backup_def path [symmetric])
  have result: "result = ?early" and s': "s' = s3"
    using cb res by simp_all
  have w3: "written s3 = written s1"
    using backup_partition_written [of w di p path s2] bp by (simp add: s2)
  have files: "new_files s s' = [(os_path_join path ''backup_info.json'', info)]"
    by (simp add: new_files_def s' w3 s1)
  obtain c where t3: "trace s3 = trace s2 @ c" and c: "set c \<subseteq> set (backup_commands path p)"
    using backup_partition_trace [of w di p path s2] bp by auto
  have cmds: "new_commands s s' = concat (map (backup_commands path) pre) @ c"
    by (simp add: new_commands_def s' t3 s2 s1)
  have never: "dump_command q \<notin> set (new_commands s s')" if q: "q \<in> set post" for q
  proof -
    have "q \<noteq> p" and "q \<notin> set pre" using dist q by auto
    have "dump_command q \<notin> set c"
      using c dump_not_in_backup_commands [OF \<open>q \<noteq> p\<close>, of path] by blast
    moreover have "dump_command q \<notin> set (backup_commands path q')" if "q' \<in> set pre" for q'
    proof -
      have "q \<noteq> q'" using that \<open>q \<notin> set pre\<close> by blast
      then show ?thesis by (rule dump_not_in_backup_commands)
    qed
    ultimately show ?thesis by (auto simp: cmds)
  qed
  show ?thesis
    using result r loop_all acc files never verification_path_differs [of path]
    by (auto simp: s1_def)
qed

lemma create_backup_verification:
  assumes path: "path = get_backup_path w di s"
    and res: "create_backup w di s = (result, s')"
    and v: "(os_path_join path ''verification.json'', v) \<in> set (new_files s s')"
  shows "(\<exists>s2. backup_loop w di path critical_partitions [] (snd (create_backup_info w path di s)) =
                 (Inr (None, map (success_entry path) critical_partitions), s2))
         \<and> all_success (map (success_entry path) critical_partitions) = Inr True
         \<and> (\<exists>ts. v = PDict [(''timestamp'', PStr ts),
                             (''results'', PDict (map (success_entry path) critical_partitions)),
                             (''verified'', PBool True)])
         \<and> map_of result ''status'' = Some (PStr ''success'')"
proof (cases "makedirs w path")
  case (Some e)
  then have "create_backup w di s = handle_backup_error w e s"
    by (simp add: create_backup_def path [symmetric])
  then have "s' = snd (handle_backup_error w e s)"
    using res by (metis snd_conv)
  then have "written s' = written s"
    by (simp add: handle_backup_error_result)
  then show ?thesis using v by (simp add: new_files_def)
next
  case None
  note mk = this
  show ?thesis
  proof (cases "write_json w (os_path_join path ''backup_info.json'')")
    case (Some e)
    then have "create_backup w di s = handle_backup_error w e s"
      using mk create_backup_info_failed [OF Some, of di s]
      by (simp add: create_backup_def path [symmetric])
    then have "s' = snd (handle_backup_error w e s)"
      using res by (metis snd_conv)
    then have "written s' = written s"
      by (simp add: handle_backup_error_result)
    then show ?thesis using v by (simp add: new_files_def)
  next
    case None
    define s1 where "s1 = snd (create_backup_info w path di s)"
    define info where "info = PDict [(''timestamp'', PStr (now_isoformat w (trace s))),
                 (''device_info'', device_info_val di),
                 (''partitions'', PList (map PStr critical_partitions))]"
    have cbi: "create_backup_info w path di s = (None, s1)"
      and s1: "s1 = s\<lparr>written := written s @ [(os_path_join path ''backup_info.json'', info)]\<rparr>"
      using create_backup_info_ok [OF None, of di s] by (simp_all add: s1_def info_def)
    obtain lr s2 where loop: "backup_loop w di path critical_partitions [] s1 = (lr, s2)"
      by (cases "backup_loop w di path critical_partitions [] s1")
    have w2: "written s2 = written s1"
      using backup_loop_effects [of w di path critical_partitions "[]" s1] loop by simp
    have only_info: False if "written s' = written s1"
    proof -
      from that have "new_files s s' = [(os_path_join path ''backup_info.json'', info)]"
        by (simp add: new_files_def s1)
      then show False using v verification_path_differs [of path] by simp
    qed
    show ?thesis
    proof (cases lr)
      case (Inl e)
      then show ?thesis using backup_loop_never_raises [of w di path critical_partitions "[]" s1 e] loop
        by simp
    next
      case (Inr pair)
      obtain early acc where pair: "pair = (early, acc)" by (cases pair)
      show ?thesis
      proof (cases early)
        case (Some r)
        then have "create_backup w di s = (r, s2)"
          using mk cbi loop Inr pair by (simp add: create_backup_def path [symmetric])
        then have "written s' = written s1" using res w2 by simp
        then show ?thesis using only_info by blast
      next
        case None
        have fin: "backup_loop w di path critical_partitions [] s1 = (Inr (None, acc), s2)"
          using loop Inr pair None by simp
        have acc: "acc = map (success_entry path) critical_partitions"
          using backup_loop_completed [OF fin] distinct_critical by simp
        have all: "all_success acc = Inr True"
          by (simp add: acc all_success_entries)
        let ?doc = "PDict [(''timestamp'', PStr (now_isoformat w (trace s2))),
                           (''results'', PDict acc), (''verified'', PBool True)]"
        show ?thesis
        proof (cases "write_json w (os_path_join path ''verification.json'')")
          case (Some e)
          then have "create_verification_file w path acc s2 = (Some e, s2)"
            by (simp add: create_verification_file_def all json_dump_def)
          then have "create_backup w di s = handle_backup_error w e s2"
            using mk cbi fin by (simp add: create_backup_def path [symmetric])
          then have "s' = snd (handle_backup_error w e s2)"
            using res by (metis snd_conv)
          then have "written s' = written s1"
            using w2 by (simp add: handle_backup_error_result)
          then show ?thesis using only_info by blast
        next
          case None
          then have cvf: "create_verification_file w path acc s2 =
              (None, s2\<lparr>written := written s2 @ [(os_path_join path ''verification.json'', ?doc)]\<rparr>)"
            by (simp add: create_verification_file_def all json_dump_def)
          have cb: "create_backup w di s =
              ([(''status'', PStr ''success''), (''backup_path'', PStr path), (''results'', PDict acc)],
               s2\<lparr>written := written s2 @ [(os_path_join path ''verification.json'', ?doc)]\<rparr>)"
            using mk cbi fin cvf by (simp add: create_backup_def path [symmetric])
          have "new_files s s' = [(os_path_join path ''backup_info.json'', info),
                                   (os_path_join path ''verification.json'', ?doc)]"
            using cb res by (auto simp: new_files_def w2 s1)
          then have "v = ?doc"
            using v verification_path_differs [of path] by auto
          then show ?thesis
            using cb res fin acc all by (auto simp: s1_def)
        qed
      qed
    qed
  qed
qed

section \<open>Backup: fail-fast and the verification file\<close>

lemmas backup_eval = backup_partition_def subprocess_run_def subscript_def dump_command_def
  healthy_device_def persist_fails_device_def battery_command_def storage_command_def
  os_path_join_def get_backup_path_def backup_root_def Let_def

text \<open>C2, as the code has it. Take a run of \<open>create_backup\<close> in which the backup directory
  and the manifest are written, the partitions \<open>pre\<close> before \<open>p\<close> in the critical set are backed
  up, and the backup of \<open>p\<close> fails. Then the result is status error with the message "Backup
  failed for p", and its details field is the result of the failing partition alone, a failure
  with its error text. The results dictionary of the loop holds, at that moment, one successful
  entry for each partition of \<open>pre\<close> and one failure entry for \<open>p\<close>, and no entry for a later
  partition. The only file written is the manifest: verification.json is not written. No dump is
  issued for any partition after \<open>p\<close>. For every run: when verification.json is written, all six
  partitions were backed up successfully, the file records their six successful results with the
  verified flag true, which is the conjunction of the successes, and the run returns success.\<close>

theorem create_backup_fail_fast:
  assumes "path = get_backup_path w di s" and "create_backup w di s = (result, s')"
  shows
    "(\<forall>pre p post acc s2.
        critical_partitions = pre @ p # post
        \<and> makedirs w path = None
        \<and> write_json w (os_path_join path ''backup_info.json'') = None
        \<and> backup_loop w di path pre [] (snd (create_backup_info w path di s)) = (Inr (None, acc), s2)
        \<and> map_of (fst (backup_partition w di p path s2)) ''success'' \<noteq> Some (PBool True) \<longrightarrow>
        (\<exists>e. result = [(''status'', PStr ''error''),
                       (''message'', PStr (''Backup failed for '' @ p)),
                       (''details'', PDict [(''success'', PBool False), (''error'', PStr e)])]
            \<and> fst (backup_loop w di path critical_partitions []
                       (snd (create_backup_info w path di s))) =
                Inr (Some result, map (success_entry path) pre
                                   @ [(p, PDict [(''success'', PBool False), (''error'', PStr e)])])
            \<and> length (filter entry_succeeded
                 (map (success_entry path) pre
                  @ [(p, PDict [(''success'', PBool False), (''error'', PStr e)])])) = length pre
            \<and> length (filter entry_failed
                 (map (success_entry path) pre
                  @ [(p, PDict [(''success'', PBool False), (''error'', PStr e)])])) = 1)
        \<and> map fst (new_files s s') = [os_path_join path ''backup_info.json'']
        \<and> os_path_join path ''verification.json'' \<notin> fst ` set (new_files s s')
        \<and> (\<forall>q \<in> set post. dump_command q \<notin> set (new_commands s s')))
     \<and> (\<forall>v. (os_path_join path ''verification.json'', v) \<in> set (new_files s s') \<longrightarrow>
          (\<exists>s2. backup_loop w di path critical_partitions [] (snd (create_backup_info w path di s)) =
                 (Inr (None, map (success_entry path) critical_partitions), s2))
          \<and> all_success (map (success_entry path) critical_partitions) = Inr True
          \<and> (\<exists>ts. v = PDict [(''timestamp'', PStr ts),
                              (''results'', PDict (map (success_entry path) critical_partitions)),
                              (''verified'', PBool True)])
          \<and> map_of result ''status'' = Some (PStr ''success''))"
proof (intro conjI allI impI)
  fix pre p post acc s2
  assume h: "critical_partitions = pre @ p # post
        \<and> makedirs w path = None
        \<and> write_json w (os_path_join path ''backup_info.json'') = None
        \<and> backup_loop w di path pre [] (snd (create_backup_info w path di s)) = (Inr (None, acc), s2)
        \<and> map_of (fst (backup_partition w di p path s2)) ''success'' \<noteq> Some (PBool True)"
  have ab: "(\<exists>e. result = [(''status'', PStr ''error''),
                       (''message'', PStr (''Backup failed for '' @ p)),
                       (''details'', PDict [(''success'', PBool False), (''error'', PStr e)])]
            \<and> fst (backup_loop w di path critical_partitions []
                       (snd (create_backup_info w path di s))) =
                Inr (Some result, map (success_entry path) pre
                                   @ [(p, PDict [(''success'', PBool False), (''error'', PStr e)])]))
         \<and> acc = map (success_entry path) pre
         \<and> map fst (new_files s s') = [os_path_join path ''backup_info.json'']
         \<and> os_path_join path ''verification.json'' \<notin> fst ` set (new_files s s')
         \<and> (\<forall>q \<in> set post. dump_command q \<notin> set (new_commands s s'))"
    using h by (intro create_backup_abort [OF assms]) blast+
  then obtain e where e: "result = [(''status'', PStr ''error''),
                       (''message'', PStr (''Backup failed for '' @ p)),
                       (''details'', PDict [(''success'', PBool False), (''error'', PStr e)])]"
     and l: "fst (backup_loop w di path critical_partitions []
                       (snd (create_backup_info w path di s))) =
                Inr (Some result, map (success_entry path) pre
                                   @ [(p, PDict [(''success'', PBool False), (''error'', PStr e)])])"
    by blast
  have counts: "length (filter entry_succeeded
                 (map (success_entry path) pre
                  @ [(p, PDict [(''success'', PBool False), (''error'', PStr e)])])) = length pre
            \<and> length (filter entry_failed
                 (map (success_entry path) pre
                  @ [(p, PDict [(''success'', PBool False), (''error'', PStr e)])])) = 1" for e
    by (simp add: filter_success_entries entry_succeeded_def entry_failed_def)
  show "\<exists>e. result = [(''status'', PStr ''error''),
                       (''message'', PStr (''Backup failed for '' @ p)),
                       (''details'', PDict [(''success'', PBool False), (''error'', PStr e)])]
            \<and> fst (backup_loop w di path critical_partitions []
                       (snd (create_backup_info w path di s))) =
                Inr (Some result, map (success_entry path) pre
                                   @ [(p, PDict [(''success'', PBool False), (''error'', PStr e)])])
            \<and> length (filter entry_succeeded
                 (map (success_entry path) pre
                  @ [(p, PDict [(''success'', PBool False), (''error'', PStr e)])])) = length pre
            \<and> length (filter entry_failed
                 (map (success_entry path) pre
                  @ [(p, PDict [(''success'', PBool False), (''error'', PStr e)])])) = 1"
    using e l counts [of e] by (intro exI [of _ e]) simp
  show "map fst (new_files s s') = [os_path_join path ''backup_info.json'']"
    using ab by simp
  show "os_path_join path ''verification.json'' \<notin> fst ` set (new_files s s')"
    using ab by simp
  show "\<forall>q \<in> set post. dump_command q \<notin> set (new_commands s s')"
    using ab by simp
next
  fix v
  assume v: "(os_path_join path ''verification.json'', v) \<in> set (new_files s s')"
  note ver = create_backup_verification [OF assms v]
  show "\<exists>s2. backup_loop w di path critical_partitions [] (snd (create_backup_info w path di s)) =
                 (Inr (None, map (success_entry path) critical_partitions), s2)"
    using ver by blast
  show "all_success (map (success_entry path) critical_partitions) = Inr True"
    using ver by blast
  show "\<exists>ts. v = PDict [(''timestamp'', PStr ts),
                              (''results'', PDict (map (success_entry path) critical_partitions)),
                              (''verified'', PBool True)]"
    using ver by blast
  show "map_of result ''status'' = Some (PStr ''success'')"
    using ver by blast
qed


lemma create_backup_persist_fails:
  "create_backup (host0\<lparr>proc := persist_fails_device\<rparr>) di0 s0 =
     ([(''status'', PStr ''error''), (''message'', PStr ''Backup failed for persist''),
       (''details'', PDict [(''success'', PBool False),
                            (''error'', PStr ''dd: No space left on device'')])],
      s0\<lparr>trace := backup_commands ''./MTK_TOOL/BACKUPS/X1_20240101_000000'' ''nvram''
                     @ backup_commands ''./MTK_TOOL/BACKUPS/X1_20240101_000000'' ''boot''
                     @ [dump_command ''persist''],
         written := [(''./MTK_TOOL/BACKUPS/X1_20240101_000000/backup_info.json'',
                      PDict [(''timestamp'', PStr ''2024-01-01T00:00:00''),
                             (''device_info'', device_info_val di0),
                             (''partitions'', PList (map PStr critical_partitions))])]\<rparr>)"
  by (simp add: create_backup_def create_backup_info_def json_dump_def backup_eval
        backup_commands_def cleanup_command_def host0_def s0_def di0_def critical_partitions_def)

text \<open>The claim as worded says that the details field holds the partial results, with two
  successful entries and one failure entry when the third partition fails. In that run the details
  field is the failing result of persist itself: its two items are the fields success and error,
  and none of them is a per-partition entry.\<close>

theorem create_backup_details_counterexample:
  "map_of (fst (create_backup (host0\<lparr>proc := persist_fails_device\<rparr>) di0 s0)) ''details'' =
     Some (PDict [(''success'', PBool False), (''error'', PStr ''dd: No space left on device'')])
   \<and> length (filter entry_succeeded
         [(''success'', PBool False), (''error'', PStr ''dd: No space left on device'')]) = 0
   \<and> length (filter entry_failed
         [(''success'', PBool False), (''error'', PStr ''dd: No space left on device'')]) = 0"
  by (simp add: create_backup_persist_fails entry_succeeded_def entry_failed_def)


theorem create_backup_fail_fast_witness:
  "critical_partitions = [''nvram'', ''boot''] @ ''persist'' # [''security'', ''userdata'', ''system'']
   \<and> fst (create_backup (host0\<lparr>proc := persist_fails_device\<rparr>) di0 s0) =
        [(''status'', PStr ''error''), (''message'', PStr ''Backup failed for persist''),
         (''details'', PDict [(''success'', PBool False),
                              (''error'', PStr ''dd: No space left on device'')])]
   \<and> map fst (new_files s0 (snd (create_backup (host0\<lparr>proc := persist_fails_device\<rparr>) di0 s0))) =
        [''./MTK_TOOL/BACKUPS/X1_20240101_000000/backup_info.json'']
   \<and> dump_command ''security''
        \<notin> set (new_commands s0 (snd (create_backup (host0\<lparr>proc := persist_fails_device\<rparr>) di0 s0)))
   \<and> map_of (fst (create_backup host0 di0 s0)) ''status'' = Some (PStr ''success'')
   \<and> map fst (new_files s0 (snd (create_backup host0 di0 s0))) =
        [''./MTK_TOOL/BACKUPS/X1_20240101_000000/backup_info.json'',
         ''./MTK_TOOL/BACKUPS/X1_20240101_000000/verification.json'']"
proof -
  let ?w = "host0\<lparr>proc := persist_fails_device\<rparr>"
  let ?path = "''./MTK_TOOL/BACKUPS/X1_20240101_000000''"
  let ?info = "PDict [(''timestamp'', PStr ''2024-01-01T00:00:00''),
                      (''device_info'', device_info_val di0),
                      (''partitions'', PList (map PStr critical_partitions))]"
  let ?s1 = "s0\<lparr>written := [(''./MTK_TOOL/BACKUPS/X1_20240101_000000/backup_info.json'', ?info)]\<rparr>"
  let ?s2 = "?s1\<lparr>trace := backup_commands ?path ''nvram'' @ backup_commands ?path ''boot''\<rparr>"
  have p: "?path = get_backup_path ?w di0 s0"
    by (simp add: get_backup_path_def backup_root_def os_path_join_def host0_def di0_def)
  have p0: "?path = get_backup_path host0 di0 s0"
    by (simp add: get_backup_path_def backup_root_def os_path_join_def host0_def di0_def)
  obtain result s' where cb: "create_backup ?w di0 s0 = (result, s')"
    by (cases "create_backup ?w di0 s0")
  have sp: "critical_partitions = [''nvram'', ''boot''] @ ''persist'' # [''security'', ''userdata'', ''system'']"
    by (simp add: critical_partitions_def)
  have mk: "makedirs ?w ?path = None" by (simp add: host0_def)
  have wr: "write_json ?w (os_path_join ?path ''backup_info.json'') = None" by (simp add: host0_def)
  have s1: "snd (create_backup_info ?w ?path di0 s0) = ?s1"
    by (simp add: create_backup_info_def json_dump_def host0_def s0_def os_path_join_def)
  have loop: "backup_loop ?w di0 ?path [''nvram'', ''boot''] [] (snd (create_backup_info ?w ?path di0 s0))
                = (Inr (None, map (success_entry ?path) [''nvram'', ''boot'']), ?s2)"
    unfolding s1
    by (simp add: backup_eval backup_commands_def cleanup_command_def success_entry_def
          host0_def s0_def)
  have fail: "map_of (fst (backup_partition ?w di0 ''persist'' ?path ?s2)) ''success'' \<noteq> Some (PBool True)"
    by (simp add: backup_eval host0_def s0_def)
  note main = create_backup_fail_fast [OF p cb, THEN conjunct1, rule_format,
                 of "[''nvram'', ''boot'']" "''persist''" "[''security'', ''userdata'', ''system'']"
                    "map (success_entry ?path) [''nvram'', ''boot'']" ?s2]
  have a: "map fst (new_files s0 s') = [os_path_join ?path ''backup_info.json'']
           \<and> (\<forall>q \<in> set [''security'', ''userdata'', ''system'']. dump_command q \<notin> set (new_commands s0 s'))"
    using main sp mk wr loop fail by blast
  have r: "fst (create_backup ?w di0 s0) =
        [(''status'', PStr ''error''), (''message'', PStr ''Backup failed for persist''),
         (''details'', PDict [(''success'', PBool False),
                              (''error'', PStr ''dd: No space left on device'')])]"
    by (simp add: create_backup_persist_fails)
  obtain result0 s0' where cb0: "create_backup host0 di0 s0 = (result0, s0')"
    by (cases "create_backup host0 di0 s0")
  have files0: "map fst (new_files s0 (snd (create_backup host0 di0 s0))) =
        [''./MTK_TOOL/BACKUPS/X1_20240101_000000/backup_info.json'',
         ''./MTK_TOOL/BACKUPS/X1_20240101_000000/verification.json'']"
    by (simp add: create_backup_def create_backup_info_def create_verification_file_def
          json_dump_def backup_eval host0_def s0_def di0_def critical_partitions_def new_files_def)
  then obtain v where "(os_path_join ?path ''verification.json'', v) \<in> set (new_files s0 s0')"
    using cb0 by (auto simp: os_path_join_def map_eq_Cons_conv)
  then have ok: "map_of result0 ''status'' = Some (PStr ''success'')"
    using create_backup_fail_fast [OF p0 cb0, THEN conjunct2] by blast
  show ?thesis
    using sp r a cb files0 ok cb0 by (simp add: os_path_join_def)
qed

section \<open>Storage arithmetic: unit conversion\<close>

lemma convert_to_mb_examples:
  "convert_to_mb ''1.5G'' = 1536" "convert_to_mb ''800M'' = 800" "convert_to_mb ''bogus'' = 0"
  "convert_to_mb ''2048K'' = 2" "convert_to_mb ''1.5g'' = 1536" "convert_to_mb ''800m'' = 800"
  "convert_to_mb ''2048k'' = 2" "convert_to_mb ''97G'' = 99328" "convert_to_mb ''12T'' = 0"
  "convert_to_mb [] = 0"
  by (simp_all add: convert_to_mb_def convert_to_mb_body_def str_eval float_eval)

lemma convert_to_mb_general:
  assumes "s \<noteq> []" and "py_float_of_str (butlast s) = Inr x"
  shows "convert_to_mb s =
           (if upper_char (last s) = CHR ''G'' then int_or_zero (fmul x (float_of_int 1024))
            else if upper_char (last s) = CHR ''M'' then int_or_zero x
            else if upper_char (last s) = CHR ''K'' then
              (case fdiv x (float_of_int 1024) of Inl e \<Rightarrow> 0 | Inr q \<Rightarrow> int_or_zero q)
            else 0)"
  using assms
  by (simp add: convert_to_mb_def convert_to_mb_body_def int_or_zero_def split: sum.splits)

lemma float_1024: "float_of_int 1024 = Finite 4503599627370496 (- 42)"
  by (simp add: float_eval)

lemma fdiv_1024: "fdiv x (float_of_int 1024) \<noteq> Inl e"
  by (cases x) (simp_all add: float_1024)

text \<open>C10: \<open>_convert_to_mb\<close> returns an integer for every string and never raises: every
  exception of its body is answered by 0. It maps "1.5G" to 1536 and "800M" to 800, in either
  letter case of the suffix, and "bogus" to 0. A numeric part that \<open>float\<close> cannot parse gives
  0, and so does an empty string or a suffix other than G, M, K. For a numeric part that parses
  to the float \<open>x\<close>, suffix G gives \<open>int(x * 1024)\<close>, suffix M gives \<open>int(x)\<close> and suffix K
  gives \<open>int(x / 1024)\<close>, computed in binary64 arithmetic; the result depends on the suffix
  only through its upper-case form. \<open>int\<close> truncates a finite float and raises on an infinity
  or a NaN, which gives 0.\<close>

theorem convert_to_mb_total:
  "convert_to_mb ''1.5G'' = 1536 \<and> convert_to_mb ''800M'' = 800 \<and> convert_to_mb ''bogus'' = 0
   \<and> convert_to_mb ''1.5g'' = 1536 \<and> convert_to_mb ''800m'' = 800
   \<and> convert_to_mb ''2048K'' = 2 \<and> convert_to_mb ''2048k'' = 2
   \<and> (\<forall>s e. py_float_of_str (butlast s) = Inl e \<longrightarrow> convert_to_mb s = 0)
   \<and> (\<forall>s. s = [] \<or> upper_char (last s) \<notin> {CHR ''G'', CHR ''M'', CHR ''K''} \<longrightarrow> convert_to_mb s = 0)
   \<and> (\<forall>s e. convert_to_mb_body s = Inl e \<longrightarrow> convert_to_mb s = 0)
   \<and> (\<forall>s x. s \<noteq> [] \<and> py_float_of_str (butlast s) = Inr x \<longrightarrow>
         (upper_char (last s) = CHR ''G'' \<longrightarrow>
            convert_to_mb s = int_or_zero (fmul x (float_of_int 1024)))
         \<and> (upper_char (last s) = CHR ''M'' \<longrightarrow> convert_to_mb s = int_or_zero x)
         \<and> (upper_char (last s) = CHR ''K'' \<longrightarrow>
            (\<exists>q. fdiv x (float_of_int 1024) = Inr q \<and> convert_to_mb s = int_or_zero q)))
   \<and> (\<forall>n c c'. upper_char c = upper_char c' \<longrightarrow>
         convert_to_mb (n @ [c]) = convert_to_mb (n @ [c']))
   \<and> (\<forall>m e. int_or_zero (Finite m e) = trunc m e)
   \<and> int_or_zero NaN = 0 \<and> int_or_zero PosInf = 0 \<and> int_or_zero NegInf = 0"
proof (intro conjI allI impI)
  show "convert_to_mb ''1.5G'' = 1536" by (rule convert_to_mb_examples)
  show "convert_to_mb ''800M'' = 800" by (rule convert_to_mb_examples)
  show "convert_to_mb ''bogus'' = 0" by (rule convert_to_mb_examples)
  show "convert_to_mb ''1.5g'' = 1536" by (rule convert_to_mb_examples)
  show "convert_to_mb ''800m'' = 800" by (rule convert_to_mb_examples)
  show "convert_to_mb ''2048K'' = 2" by (rule convert_to_mb_examples)
  show "convert_to_mb ''2048k'' = 2" by (rule convert_to_mb_examples)
next
  fix s e
  assume "py_float_of_str (butlast s) = Inl e"
  then show "convert_to_mb s = 0"
    by (simp add: convert_to_mb_def convert_to_mb_body_def)
next
  fix s :: string
  assume "s = [] \<or> upper_char (last s) \<notin> {CHR ''G'', CHR ''M'', CHR ''K''}"
  then show "convert_to_mb s = 0"
    by (cases "py_float_of_str (butlast s)")
       (auto simp: convert_to_mb_def convert_to_mb_body_def Let_def)
next
  fix s e
  assume "convert_to_mb_body s = Inl e"
  then show "convert_to_mb s = 0" by (simp add: convert_to_mb_def)
next
  fix s x
  assume h: "s \<noteq> [] \<and> py_float_of_str (butlast s) = Inr x"
  assume u: "upper_char (last s) = CHR ''G''"
  show "convert_to_mb s = int_or_zero (fmul x (float_of_int 1024))"
    using convert_to_mb_general [of s x] h u by simp
next
  fix s x
  assume h: "s \<noteq> [] \<and> py_float_of_str (butlast s) = Inr x"
  assume u: "upper_char (last s) = CHR ''M''"
  show "convert_to_mb s = int_or_zero x"
    using convert_to_mb_general [of s x] h u by simp
next
  fix s x
  assume h: "s \<noteq> [] \<and> py_float_of_str (butlast s) = Inr x"
  assume u: "upper_char (last s) = CHR ''K''"
  obtain q where q: "fdiv x (float_of_int 1024) = Inr q"
    using fdiv_1024 [of x] by (cases "fdiv x (float_of_int 1024)") auto
  have "convert_to_mb s = int_or_zero q"
    using convert_to_mb_general [of s x] h u q by simp
  with q show "\<exists>q. fdiv x (float_of_int 1024) = Inr q \<and> convert_to_mb s = int_or_zero q"
    by blast
next
  fix n :: string and c c' :: char
  assume "upper_char c = upper_char c'"
  then show "convert_to_mb (n @ [c]) = convert_to_mb (n @ [c'])"
    by (cases "py_float_of_str n") (simp_all add: convert_to_mb_def convert_to_mb_body_def Let_def)
next
  fix m e
  show "int_or_zero (Finite m e) = trunc m e" by (simp add: int_or_zero_def)
next
  show "int_or_zero NaN = 0" by (simp add: int_or_zero_def)
  show "int_or_zero PosInf = 0" by (simp add: int_or_zero_def)
  show "int_or_zero NegInf = 0" by (simp add: int_or_zero_def)
qed

theorem convert_to_mb_total_witness:
  "py_float_of_str (butlast ''bogus'') = Inl (Error ''could not convert string to float'')
   \<and> convert_to_mb ''bogus'' = 0
   \<and> upper_char (last ''12T'') \<notin> {CHR ''G'', CHR ''M'', CHR ''K''}
   \<and> convert_to_mb ''12T'' = 0
   \<and> py_float_of_str (butlast ''0.5G'') = Inr (Finite 4503599627370496 (- 53))
   \<and> upper_char (last ''0.5G'') = CHR ''G''
   \<and> convert_to_mb ''0.5G'' = int_or_zero (fmul (Finite 4503599627370496 (- 53)) (float_of_int 1024))
   \<and> int_or_zero (fmul (Finite 4503599627370496 (- 53)) (float_of_int 1024)) = 512"
proof -
  have h1: "py_float_of_str (butlast ''bogus'') = Inl (Error ''could not convert string to float'')"
    by (simp add: str_eval)
  have h2: "upper_char (last ''12T'') \<notin> {CHR ''G'', CHR ''M'', CHR ''K''}"
    by (simp add: upper_char_def)
  have h3: "py_float_of_str (butlast ''0.5G'') = Inr (Finite 4503599627370496 (- 53))"
    by (simp add: str_eval float_eval)
  have h4: "upper_char (last ''0.5G'') = CHR ''G''"
    by (simp add: upper_char_def)
  have h5: "int_or_zero (fmul (Finite 4503599627370496 (- 53)) (float_of_int 1024)) = 512"
    by (simp add: int_or_zero_def float_eval)
  note unparsed = convert_to_mb_total [THEN conjunct2, THEN conjunct2, THEN conjunct2,
      THEN conjunct2, THEN conjunct2, THEN conjunct2, THEN conjunct2, THEN conjunct1, rule_format]
  note unknown = convert_to_mb_total [THEN conjunct2, THEN conjunct2, THEN conjunct2,
      THEN conjunct2, THEN conjunct2, THEN conjunct2, THEN conjunct2, THEN conjunct2,
      THEN conjunct1, rule_format]
  note parsed = convert_to_mb_total [THEN conjunct2, THEN conjunct2, THEN conjunct2,
      THEN conjunct2, THEN conjunct2, THEN conjunct2, THEN conjunct2, THEN conjunct2,
      THEN conjunct2, THEN conjunct2, THEN conjunct1, rule_format, THEN conjunct1, rule_format]
  have r1: "convert_to_mb ''bogus'' = 0"
    using h1 by (rule unparsed)
  have r2: "convert_to_mb ''12T'' = 0"
    using h2 by (intro unknown disjI2)
  have ne: "''0.5G'' \<noteq> []" by simp
  have r3: "convert_to_mb ''0.5G'' = int_or_zero (fmul (Finite 4503599627370496 (- 53)) (float_of_int 1024))"
    using ne h3 h4 by (intro parsed conjI)
  show ?thesis using h1 h2 h3 h4 h5 r1 r2 r3 by (intro conjI)
qed

end
